theory Spec2Isabelle
  imports Complex_Main
begin

section \<open>JavaScript values\<close>

text \<open>
  The repository is one JavaScript function, \<open>createCallStackChart(options)\<close>, in two
  variants: \<^verbatim>\<open>call-stack-chart.js\<close> lines 1-213 (the chart is drawn into the element
  \<open>options.id\<close> and an attribution link is appended to it) and lines 215-391 (the chart is
  drawn into the fixed element \<^verbatim>\<open>call-stack-chart\<close>). The function checks the
  \<open>typeof\<close> of the fields of \<open>options\<close>, adds up a frame size, builds object literals and
  hands them to \<open>Plotly.newPlot\<close>.

  Numbers. A JavaScript number is an IEEE double. The model keeps the three special
  values apart and computes with the finite ones exactly, as rationals: it says what the
  program computes wherever the double arithmetic is exact (integers of magnitude below
  \<open>2^53\<close>, their halves), and it does not model rounding. The two zeros are one value
  \<open>Fin 0\<close>; a division by zero is a division by \<open>+0\<close>.
\<close>

datatype jsnum = Fin rat | NaN | PInf | NInf

fun num_add :: "jsnum \<Rightarrow> jsnum \<Rightarrow> jsnum" where
  "num_add (Fin a) (Fin b) = Fin (a + b)"
| "num_add NaN _ = NaN"
| "num_add _ NaN = NaN"
| "num_add PInf NInf = NaN"
| "num_add NInf PInf = NaN"
| "num_add PInf _ = PInf"
| "num_add _ PInf = PInf"
| "num_add NInf _ = NInf"
| "num_add _ NInf = NInf"

fun num_neg :: "jsnum \<Rightarrow> jsnum" where
  "num_neg (Fin a) = Fin (- a)"
| "num_neg NaN = NaN"
| "num_neg PInf = NInf"
| "num_neg NInf = PInf"

definition num_sub :: "jsnum \<Rightarrow> jsnum \<Rightarrow> jsnum" where
  "num_sub a b = num_add a (num_neg b)"

text \<open>An infinity times, or a finite number over zero, by the sign of the other operand.\<close>

definition signed_inf :: "rat \<Rightarrow> jsnum" where
  "signed_inf s = (if s = 0 then NaN else if 0 < s then PInf else NInf)"

fun num_mul :: "jsnum \<Rightarrow> jsnum \<Rightarrow> jsnum" where
  "num_mul (Fin a) (Fin b) = Fin (a * b)"
| "num_mul NaN _ = NaN"
| "num_mul _ NaN = NaN"
| "num_mul PInf (Fin b) = signed_inf b"
| "num_mul (Fin a) PInf = signed_inf a"
| "num_mul NInf (Fin b) = signed_inf (- b)"
| "num_mul (Fin a) NInf = signed_inf (- a)"
| "num_mul PInf PInf = PInf"
| "num_mul NInf NInf = PInf"
| "num_mul PInf NInf = NInf"
| "num_mul NInf PInf = NInf"

fun num_div :: "jsnum \<Rightarrow> jsnum \<Rightarrow> jsnum" where
  "num_div (Fin a) (Fin b) = (if b = 0 then signed_inf a else Fin (a / b))"
| "num_div NaN _ = NaN"
| "num_div _ NaN = NaN"
| "num_div (Fin a) PInf = Fin 0"
| "num_div (Fin a) NInf = Fin 0"
| "num_div PInf (Fin b) = (if 0 \<le> b then PInf else NInf)"
| "num_div NInf (Fin b) = (if 0 \<le> b then NInf else PInf)"
| "num_div PInf PInf = NaN"
| "num_div PInf NInf = NaN"
| "num_div NInf PInf = NaN"
| "num_div NInf NInf = NaN"

text \<open>
  Values. A value is a primitive or a reference to an object of the heap; an object is an
  array or a plain object with its own data properties in insertion order. The heap is
  the list of the objects allocated so far, an address is an index into it. Functions,
  symbols, big integers, accessor properties, proxies, array holes and objects with a
  changed prototype are outside the model: every object is ordinary data whose prototype is
  \<open>Object.prototype\<close> or \<open>Array.prototype\<close>. A reference beyond the heap, which no
  value of a program is, reads as an object without properties.
\<close>

datatype jsval = JUndefined | JNull | JBool bool | JNum jsnum | JStr string | JRef nat

datatype jsobj = JArray "jsval list" | JObject "(string \<times> jsval) list"

type_synonym heap = "jsobj list"

definition deref :: "heap \<Rightarrow> nat \<Rightarrow> jsobj option" where
  "deref h a = (if a < length h then Some (h ! a) else None)"

datatype error = Error string | TypeError

fun typeof :: "jsval \<Rightarrow> string" where
  "typeof JUndefined = ''undefined''"
| "typeof JNull = ''object''"
| "typeof (JBool _) = ''boolean''"
| "typeof (JNum _) = ''number''"
| "typeof (JStr _) = ''string''"
| "typeof (JRef _) = ''object''"

text \<open>
  \<open>v[k]\<close> for a property name \<open>k\<close> that is neither an array index nor a member of a
  prototype (the program reads \<open>id\<close>, \<open>title\<close>, \<open>returnValueSize\<close>,
  \<open>returnValueOnCallStack\<close>, \<open>callArgs\<close>, \<open>linkRegister\<close>, \<open>padding\<close>, \<open>yMax\<close>,
  \<open>name\<close>, \<open>size\<close> and \<open>color\<close>): reading a property of \<open>undefined\<close> or \<open>null\<close> throws
  a TypeError, an object gives its own property or \<open>undefined\<close>, an array and a primitive
  give \<open>undefined\<close>. Destructuring \<open>{size}\<close> from a value is the same read.
\<close>

definition own_property :: "(string \<times> jsval) list \<Rightarrow> string \<Rightarrow> jsval" where
  "own_property fs k = (case map_of fs k of None \<Rightarrow> JUndefined | Some v \<Rightarrow> v)"

fun getProp :: "heap \<Rightarrow> jsval \<Rightarrow> string \<Rightarrow> error + jsval" where
  "getProp h JUndefined k = Inl TypeError"
| "getProp h JNull k = Inl TypeError"
| "getProp h (JRef a) k =
     (case deref h a of
        Some (JObject fs) \<Rightarrow> Inr (own_property fs k)
      | _ \<Rightarrow> Inr JUndefined)"
| "getProp h _ k = Inr JUndefined"

section \<open>Validation\<close>

text \<open>
  \<^verbatim>\<open>const argumentTypeNames = { id: 'string', title: 'string', ... }\<close> (lines 14-23) and
  the table of the second variant (lines 224-232), which has no \<open>id\<close>.
  \<open>Object.entries\<close> lists the properties in insertion order.
\<close>

definition argumentTypeNames :: "(string \<times> string) list" where
  "argumentTypeNames =
     [(''id'', ''string''),
      (''title'', ''string''),
      (''returnValueSize'', ''number''),
      (''returnValueOnCallStack'', ''boolean''),
      (''callArgs'', ''object''),
      (''linkRegister'', ''boolean''),
      (''padding'', ''number''),
      (''yMax'', ''number'')]"

definition argumentTypeNames2 :: "(string \<times> string) list" where
  "argumentTypeNames2 =
     [(''title'', ''string''),
      (''returnValueSize'', ''number''),
      (''returnValueOnCallStack'', ''boolean''),
      (''callArgs'', ''object''),
      (''linkRegister'', ''boolean''),
      (''padding'', ''number''),
      (''yMax'', ''number'')]"

text \<open>
  Lines 52-56 and 259-263:
  \<^verbatim>\<open>Object.entries(argumentTypeNames).forEach(([arg, type]) => {
      if (typeof options[arg] !== type) {
          throw new Error(`Expected ${arg} to be of type ${type}`); } });\<close>
\<close>

fun validate :: "(string \<times> string) list \<Rightarrow> heap \<Rightarrow> jsval \<Rightarrow> error + unit" where
  "validate [] h options = Inr ()"
| "validate ((arg, type) # rest) h options =
     (case getProp h options arg of
        Inl e \<Rightarrow> Inl e
      | Inr v \<Rightarrow>
          if typeof v \<noteq> type
          then Inl (Error (''Expected '' @ arg @ '' to be of type '' @ type))
          else validate rest h options)"

section \<open>Operators\<close>

text \<open>
  The conversions of the language that the program's operators apply. Three of them are
  the runtime's and are taken as parameters, so that every theorem below holds whatever they
  are: the text of a number (\<open>Number::toString\<close>), the number read from a string
  (\<open>StringToNumber\<close>), and the text of an ordinary object or array (what \<open>ToPrimitive\<close>
  gives for it through \<open>Object.prototype.toString\<close> or \<open>Array.prototype.join\<close>).
  The conversion of an object is taken to return: an object with an own property
  \<open>toString\<close> or \<open>valueOf\<close>, which could make it throw, is outside the model. The
  program converts only values that it reads from the elements of \<open>callArgs\<close>
  (\<open>size\<close> in a sum, \<open>name\<close> in a text) and values that the validation has found to be
  numbers.
\<close>

record runtime =
  NumberToString :: "jsnum \<Rightarrow> string"
  StringToNumber :: "string \<Rightarrow> jsnum"
  ObjectToString :: "heap \<Rightarrow> nat \<Rightarrow> string"

fun ToPrimitive :: "runtime \<Rightarrow> heap \<Rightarrow> jsval \<Rightarrow> jsval" where
  "ToPrimitive rt h (JRef a) = JStr (ObjectToString rt h a)"
| "ToPrimitive rt h v = v"

fun ToNumber :: "runtime \<Rightarrow> heap \<Rightarrow> jsval \<Rightarrow> jsnum" where
  "ToNumber rt h JUndefined = NaN"
| "ToNumber rt h JNull = Fin 0"
| "ToNumber rt h (JBool b) = Fin (if b then 1 else 0)"
| "ToNumber rt h (JNum n) = n"
| "ToNumber rt h (JStr s) = StringToNumber rt s"
| "ToNumber rt h (JRef a) = StringToNumber rt (ObjectToString rt h a)"

fun ToString :: "runtime \<Rightarrow> heap \<Rightarrow> jsval \<Rightarrow> string" where
  "ToString rt h JUndefined = ''undefined''"
| "ToString rt h JNull = ''null''"
| "ToString rt h (JBool b) = (if b then ''true'' else ''false'')"
| "ToString rt h (JNum n) = NumberToString rt n"
| "ToString rt h (JStr s) = s"
| "ToString rt h (JRef a) = ObjectToString rt h a"

fun ToBoolean :: "jsval \<Rightarrow> bool" where
  "ToBoolean JUndefined = False"
| "ToBoolean JNull = False"
| "ToBoolean (JBool b) = b"
| "ToBoolean (JNum n) = (n \<noteq> Fin 0 \<and> n \<noteq> NaN)"
| "ToBoolean (JStr s) = (s \<noteq> [])"
| "ToBoolean (JRef a) = True"

fun is_JStr :: "jsval \<Rightarrow> bool" where
  "is_JStr (JStr s) = True"
| "is_JStr _ = False"

text \<open>\<open>a + b\<close>: concatenation when a primitive operand is a string, addition of numbers otherwise.\<close>

definition js_add :: "runtime \<Rightarrow> heap \<Rightarrow> jsval \<Rightarrow> jsval \<Rightarrow> jsval" where
  "js_add rt h a b =
     (let pa = ToPrimitive rt h a; pb = ToPrimitive rt h b
      in if is_JStr pa \<or> is_JStr pb
         then JStr (ToString rt h pa @ ToString rt h pb)
         else JNum (num_add (ToNumber rt h pa) (ToNumber rt h pb)))"

definition js_sub :: "runtime \<Rightarrow> heap \<Rightarrow> jsval \<Rightarrow> jsval \<Rightarrow> jsval" where
  "js_sub rt h a b = JNum (num_sub (ToNumber rt h a) (ToNumber rt h b))"

definition js_mul :: "runtime \<Rightarrow> heap \<Rightarrow> jsval \<Rightarrow> jsval \<Rightarrow> jsval" where
  "js_mul rt h a b = JNum (num_mul (ToNumber rt h a) (ToNumber rt h b))"

definition js_div :: "runtime \<Rightarrow> heap \<Rightarrow> jsval \<Rightarrow> jsval \<Rightarrow> jsval" where
  "js_div rt h a b = JNum (num_div (ToNumber rt h a) (ToNumber rt h b))"

definition bindE :: "error + 'a \<Rightarrow> ('a \<Rightarrow> error + 'b) \<Rightarrow> error + 'b" where
  "bindE m f = (case m of Inl e \<Rightarrow> Inl e | Inr x \<Rightarrow> f x)"

text \<open>
  The elements of the array on which \<open>reduce\<close> or \<open>map\<close> is called. On \<open>null\<close> and
  \<open>undefined\<close> the property read throws; on any other value that is not an array the
  property is \<open>undefined\<close> or, as no value of the model is a function, not callable, and
  the call throws. Both are TypeErrors.
\<close>

fun array_elements :: "heap \<Rightarrow> jsval \<Rightarrow> error + jsval list" where
  "array_elements h (JRef a) =
     (case deref h a of Some (JArray xs) \<Rightarrow> Inr xs | _ \<Rightarrow> Inl TypeError)"
| "array_elements h _ = Inl TypeError"

section \<open>The frame size\<close>

text \<open>
  The constants that \<^verbatim>\<open>const { id, title, returnValueSize, ... } = options\<close> binds
  (lines 58-67 and 265-273). The seven that both variants bind are a record; the first
  variant binds \<open>id\<close> before them.
\<close>

record bindings =
  opt_title :: jsval
  opt_returnValueSize :: jsval
  opt_returnValueOnCallStack :: jsval
  opt_callArgs :: jsval
  opt_linkRegister :: jsval
  opt_padding :: jsval
  opt_yMax :: jsval

definition destructure :: "heap \<Rightarrow> jsval \<Rightarrow> error + bindings" where
  "destructure h options =
     bindE (getProp h options ''title'') (\<lambda>title.
     bindE (getProp h options ''returnValueSize'') (\<lambda>returnValueSize.
     bindE (getProp h options ''returnValueOnCallStack'') (\<lambda>returnValueOnCallStack.
     bindE (getProp h options ''callArgs'') (\<lambda>callArgs.
     bindE (getProp h options ''linkRegister'') (\<lambda>linkRegister.
     bindE (getProp h options ''padding'') (\<lambda>padding.
     bindE (getProp h options ''yMax'') (\<lambda>yMax.
     Inr \<lparr>opt_title = title, opt_returnValueSize = returnValueSize,
          opt_returnValueOnCallStack = returnValueOnCallStack, opt_callArgs = callArgs,
          opt_linkRegister = linkRegister, opt_padding = padding, opt_yMax = yMax\<rparr>)))))))"

text \<open>
  \<^verbatim>\<open>callArgs.reduce((acc, {size}) => acc + size, 0)\<close>: the loop over the elements, from
  the accumulator \<open>acc\<close>.
\<close>

fun reduce_size :: "runtime \<Rightarrow> heap \<Rightarrow> jsval \<Rightarrow> jsval list \<Rightarrow> error + jsval" where
  "reduce_size rt h acc [] = Inr acc"
| "reduce_size rt h acc (e # es) =
     (case getProp h e ''size'' of
        Inl err \<Rightarrow> Inl err
      | Inr size' \<Rightarrow> reduce_size rt h (js_add rt h acc size') es)"

text \<open>
  Lines 69-74 and 275-280, the same text in both variants:
  \<^verbatim>\<open>const callStackFrameSize = 0
      + returnValueSize * (returnValueOnCallStack ? 1 : 0)
      + callArgs.reduce((acc, {size}) => acc + size, 0)
      + (linkRegister ? 4 : 0)
      + 4 // Frame Pointer
      + padding;\<close>
\<close>

definition callStackFrameSize :: "runtime \<Rightarrow> heap \<Rightarrow> bindings \<Rightarrow> error + jsval" where
  "callStackFrameSize rt h b =
     (let t1 = js_add rt h (JNum (Fin 0))
                 (js_mul rt h (opt_returnValueSize b)
                    (JNum (Fin (if ToBoolean (opt_returnValueOnCallStack b) then 1 else 0))))
      in bindE (array_elements h (opt_callArgs b)) (\<lambda>es.
         bindE (reduce_size rt h (JNum (Fin 0)) es) (\<lambda>sum.
         Inr (js_add rt h
                (js_add rt h
                   (js_add rt h
                      (js_add rt h t1 sum)
                      (JNum (Fin (if ToBoolean (opt_linkRegister b) then 4 else 0))))
                   (JNum (Fin 4)))
                (opt_padding b)))))"

section \<open>The chart description\<close>

text \<open>
  An evaluated object or array literal: the structure of new objects that the literal
  creates, with the values that the program puts at its leaves.
\<close>

datatype literal = Val jsval | ArrayLit "literal list" | ObjectLit "(string \<times> literal) list"

abbreviation Str :: "string \<Rightarrow> literal" where
  "Str s \<equiv> Val (JStr s)"

abbreviation Num :: "rat \<Rightarrow> literal" where
  "Num q \<equiv> Val (JNum (Fin q))"

definition RETURN_VARIABLE :: string where
  "RETURN_VARIABLE = ''Return Value''"

definition BEFORE_CALL :: string where
  "BEFORE_CALL = ''Before Call''"

definition DURING_CALL :: string where
  "DURING_CALL = ''During Call''"

definition AFTER_CALL :: string where
  "AFTER_CALL = ''After Call''"

text \<open>
  \<open>layout\<close>, lines 76-153: \<open>frameSize\<close> is the value of \<open>callStackFrameSize\<close>, the
  template literal \<^verbatim>\<open>`${callStackFrameSize} Bytes`\<close> converts it to a string.
\<close>

definition layout :: "runtime \<Rightarrow> heap \<Rightarrow> bindings \<Rightarrow> jsval \<Rightarrow> literal" where
  "layout rt h b frameSize =
     ObjectLit
      [(''barmode'', Str ''stack''),
       (''title'', Val (opt_title b)),
       (''xaxis'', ObjectLit [(''title'', Str ''Call State'')]),
       (''yaxis'', ObjectLit
          [(''title'', Str ''Stack Usage (Bytes)''),
           (''range'', ArrayLit [Num 0, Val (opt_yMax b)])]),
       (''showlegend'', Val (JBool False)),
       (''uniformtext'', ObjectLit [(''mode'', Str ''hide''), (''minsize'', Num 8)]),
       (''margin'', ObjectLit [(''l'', Num 40), (''r'', Num 0), (''t'', Num 100), (''b'', Num 40)]),
       (''annotations'', ArrayLit
          [ObjectLit
             [(''x'', Num (38 / 100)),
              (''y'', Val (js_add rt h (opt_returnValueSize b)
                             (js_div rt h frameSize (JNum (Fin 2))))),
              (''xref'', Str ''x''),
              (''yref'', Str ''y''),
              (''text'', Str ''Function Call''),
              (''showarrow'', Val (JBool False)),
              (''font'', ObjectLit [(''color'', Str ''grey''), (''size'', Num 12)]),
              (''textangle'', Num 270)],
           ObjectLit
             [(''x'', Num (5 / 10)),
              (''y'', Val (js_add rt h (js_add rt h (opt_returnValueSize b) frameSize)
                             (JNum (Fin 2)))),
              (''xref'', Str ''paper''),
              (''yref'', Str ''y''),
              (''text'', Str (ToString rt h frameSize @ '' Bytes'')),
              (''showarrow'', Val (JBool False)),
              (''font'', ObjectLit [(''color'', Str ''grey''), (''size'', Num 12)])]]),
       (''shapes'', ArrayLit
          [ObjectLit
             [(''type'', Str ''line''),
              (''x0'', Num 0),
              (''y0'', Val (opt_returnValueSize b)),
              (''x1'', Num 1),
              (''y1'', Val (opt_returnValueSize b)),
              (''xref'', Str ''paper''),
              (''yref'', Str ''y''),
              (''line'', ObjectLit [(''color'', Str ''black''), (''width'', Num 2)])],
           ObjectLit
             [(''type'', Str ''rect''),
              (''x0'', Num (45 / 100)),
              (''x1'', Num (154 / 100)),
              (''y0'', Val (js_sub rt h (opt_returnValueSize b) (JNum (Fin 4)))),
              (''y1'', Val (js_add rt h (js_add rt h (opt_returnValueSize b) frameSize)
                              (JNum (Fin 4)))),
              (''xref'', Str ''x''),
              (''yref'', Str ''y''),
              (''line'', ObjectLit
                 [(''color'', Str ''grey''), (''width'', Num 2), (''dash'', Str ''dot'')])]])]"

text \<open>
  \<open>layout\<close> of the second variant, lines 282-353: no margin, and the first annotation
  is placed at \<open>x: 0.33\<close> on the paper.
\<close>

definition layout2 :: "runtime \<Rightarrow> heap \<Rightarrow> bindings \<Rightarrow> jsval \<Rightarrow> literal" where
  "layout2 rt h b frameSize =
     ObjectLit
      [(''barmode'', Str ''stack''),
       (''title'', Val (opt_title b)),
       (''xaxis'', ObjectLit [(''title'', Str ''Call State'')]),
       (''yaxis'', ObjectLit
          [(''title'', Str ''Stack Usage (Bytes)''),
           (''range'', ArrayLit [Num 0, Val (opt_yMax b)])]),
       (''showlegend'', Val (JBool False)),
       (''uniformtext'', ObjectLit [(''mode'', Str ''hide''), (''minsize'', Num 8)]),
       (''annotations'', ArrayLit
          [ObjectLit
             [(''x'', Num (33 / 100)),
              (''y'', Val (js_add rt h (opt_returnValueSize b)
                             (js_div rt h frameSize (JNum (Fin 2))))),
              (''xref'', Str ''paper''),
              (''yref'', Str ''y''),
              (''text'', Str ''Function Call''),
              (''showarrow'', Val (JBool False)),
              (''font'', ObjectLit [(''color'', Str ''grey''), (''size'', Num 12)]),
              (''textangle'', Num 270)],
           ObjectLit
             [(''x'', Num (5 / 10)),
              (''y'', Val (js_add rt h (js_add rt h (opt_returnValueSize b) frameSize)
                             (JNum (Fin 2)))),
              (''xref'', Str ''paper''),
              (''yref'', Str ''y''),
              (''text'', Str (ToString rt h frameSize @ '' Bytes'')),
              (''showarrow'', Val (JBool False)),
              (''font'', ObjectLit [(''color'', Str ''grey''), (''size'', Num 12)])]]),
       (''shapes'', ArrayLit
          [ObjectLit
             [(''type'', Str ''line''),
              (''x0'', Num 0),
              (''y0'', Val (opt_returnValueSize b)),
              (''x1'', Num 1),
              (''y1'', Val (opt_returnValueSize b)),
              (''xref'', Str ''paper''),
              (''yref'', Str ''y''),
              (''line'', ObjectLit [(''color'', Str ''black''), (''width'', Num 2)])],
           ObjectLit
             [(''type'', Str ''rect''),
              (''x0'', Num (45 / 100)),
              (''x1'', Num (154 / 100)),
              (''y0'', Val (js_sub rt h (opt_returnValueSize b) (JNum (Fin 4)))),
              (''y1'', Val (js_add rt h (js_add rt h (opt_returnValueSize b) frameSize)
                              (JNum (Fin 4)))),
              (''xref'', Str ''x''),
              (''yref'', Str ''y''),
              (''line'', ObjectLit
                 [(''color'', Str ''grey''), (''width'', Num 2), (''dash'', Str ''dot'')])]])]"

text \<open>\<open>barStack\<close>, lines 165-185, and the second variant's, lines 355-370, with no pattern.\<close>

definition barStack :: "jsval \<Rightarrow> jsval \<Rightarrow> jsval \<Rightarrow> jsval \<Rightarrow> jsval \<Rightarrow> literal" where
  "barStack x y color shape text =
     ObjectLit
      [(''x'', ArrayLit [Val x]),
       (''y'', ArrayLit [Val y]),
       (''type'', Str ''bar''),
       (''hoverinfo'', Str ''y''),
       (''marker'', ObjectLit
          [(''color'', Val color),
           (''line'', ObjectLit [(''color'', Str ''black''), (''width'', Num 1)]),
           (''pattern'', ObjectLit
              [(''shape'', Val shape), (''size'', Num 8), (''solidity'', Num (5 / 10))])]),
       (''textposition'', Str ''inside''),
       (''insidetextanchor'', Str ''middle''),
       (''text'', Val text)]"

definition barStack2 :: "jsval \<Rightarrow> jsval \<Rightarrow> jsval \<Rightarrow> jsval \<Rightarrow> literal" where
  "barStack2 x y color text =
     ObjectLit
      [(''x'', ArrayLit [Val x]),
       (''y'', ArrayLit [Val y]),
       (''type'', Str ''bar''),
       (''hoverinfo'', Str ''y''),
       (''marker'', ObjectLit
          [(''color'', Val color),
           (''line'', ObjectLit [(''color'', Str ''black''), (''width'', Num 1)])]),
       (''textposition'', Str ''inside''),
       (''insidetextanchor'', Str ''middle''),
       (''text'', Val text)]"

text \<open>
  Line 194,
  \<^verbatim>\<open>callArgs.map(({ name, size, color }, index) =>
      barStack(DURING_CALL, size, color, '', `Argument ${index} (${name})`))\<close>,
  and line 379, the same with the second variant's \<open>barStack\<close>: the loop over the elements,
  from the index \<open>index\<close>.
\<close>

fun map_callArgs :: "runtime \<Rightarrow> heap \<Rightarrow> nat \<Rightarrow> jsval list \<Rightarrow> error + literal list" where
  "map_callArgs rt h index [] = Inr []"
| "map_callArgs rt h index (e # es) =
     bindE (getProp h e ''name'') (\<lambda>name.
     bindE (getProp h e ''size'') (\<lambda>size.
     bindE (getProp h e ''color'') (\<lambda>color.
     bindE (map_callArgs rt h (Suc index) es) (\<lambda>rest.
     Inr (barStack (JStr DURING_CALL) size color (JStr [])
            (JStr (''Argument '' @ NumberToString rt (Fin (of_nat index))
                   @ '' ('' @ ToString rt h name @ '')''))
          # rest)))))"

fun map_callArgs2 :: "runtime \<Rightarrow> heap \<Rightarrow> nat \<Rightarrow> jsval list \<Rightarrow> error + literal list" where
  "map_callArgs2 rt h index [] = Inr []"
| "map_callArgs2 rt h index (e # es) =
     bindE (getProp h e ''name'') (\<lambda>name.
     bindE (getProp h e ''size'') (\<lambda>size.
     bindE (getProp h e ''color'') (\<lambda>color.
     bindE (map_callArgs2 rt h (Suc index) es) (\<lambda>rest.
     Inr (barStack2 (JStr DURING_CALL) size color
            (JStr (''Argument '' @ NumberToString rt (Fin (of_nat index))
                   @ '' ('' @ ToString rt h name @ '')''))
          # rest)))))"

text \<open>The array of traces, the second argument of \<open>Plotly.newPlot\<close>: lines 189-198.\<close>

definition traces :: "runtime \<Rightarrow> heap \<Rightarrow> bindings \<Rightarrow> error + literal list" where
  "traces rt h b =
     bindE (array_elements h (opt_callArgs b)) (\<lambda>es.
     bindE (map_callArgs rt h 0 es) (\<lambda>args.
     Inr ([barStack (JStr BEFORE_CALL) (opt_returnValueSize b) (JStr ''lightgrey'') (JStr [])
             (JStr RETURN_VARIABLE),
           (if ToBoolean (opt_returnValueOnCallStack b)
            then barStack (JStr DURING_CALL) (opt_returnValueSize b) (JStr ''lightgrey'')
                   (JStr []) (JStr RETURN_VARIABLE)
            else barStack (JStr DURING_CALL) (opt_returnValueSize b) (JStr ''lightblue'')
                   (JStr ''/'') (JStr RETURN_VARIABLE))]
          @ (if ToBoolean (opt_linkRegister b)
             then [barStack (JStr DURING_CALL) (JNum (Fin 4)) (JStr ''lightgreen'') (JStr [])
                     (JStr ''Link Register'')]
             else [])
          @ [barStack (JStr DURING_CALL) (JNum (Fin 4)) (JStr ''lightgreen'') (JStr [])
               (JStr ''Frame Pointer'')]
          @ args
          @ (if ToBoolean (opt_returnValueOnCallStack b)
             then [barStack (JStr DURING_CALL) (opt_returnValueSize b) (JStr ''lightblue'')
                     (JStr ''/'') (JStr ''Return Value'')]
             else [])
          @ [barStack (JStr DURING_CALL) (opt_padding b) (JStr ''white'') (JStr [])
               (JStr ''Padding''),
             barStack (JStr AFTER_CALL) (opt_returnValueSize b) (JStr ''lightblue'') (JStr [])
               (JStr RETURN_VARIABLE)])))"

text \<open>Lines 374-383.\<close>

definition traces2 :: "runtime \<Rightarrow> heap \<Rightarrow> bindings \<Rightarrow> error + literal list" where
  "traces2 rt h b =
     bindE (array_elements h (opt_callArgs b)) (\<lambda>es.
     bindE (map_callArgs2 rt h 0 es) (\<lambda>args.
     Inr ([barStack2 (JStr BEFORE_CALL) (opt_returnValueSize b) (JStr ''lightgrey'')
             (JStr RETURN_VARIABLE),
           barStack2 (JStr DURING_CALL) (opt_returnValueSize b)
             (if ToBoolean (opt_returnValueOnCallStack b) then JStr ''lightgrey''
              else JStr ''lightblue'')
             (JStr RETURN_VARIABLE)]
          @ (if ToBoolean (opt_linkRegister b)
             then [barStack2 (JStr DURING_CALL) (JNum (Fin 4)) (JStr ''lightgreen'')
                     (JStr ''Link Register'')]
             else [])
          @ [barStack2 (JStr DURING_CALL) (JNum (Fin 4)) (JStr ''lightgreen'')
               (JStr ''Frame Pointer'')]
          @ args
          @ (if ToBoolean (opt_returnValueOnCallStack b)
             then [barStack2 (JStr DURING_CALL) (opt_returnValueSize b) (JStr ''lightblue'')
                     (JStr ''Return Value'')]
             else [])
          @ [barStack2 (JStr DURING_CALL) (opt_padding b) (JStr ''white'') (JStr ''Padding''),
             barStack2 (JStr AFTER_CALL) (opt_returnValueSize b) (JStr ''lightblue'')
               (JStr RETURN_VARIABLE)])))"

text \<open>The last argument of \<open>Plotly.newPlot\<close>, lines 200-204 and 385-389.\<close>

definition config :: literal where
  "config =
     ObjectLit
      [(''responsive'', Val (JBool True)),
       (''displayModeBar'', Val (JBool False)),
       (''staticPlot'', Val (JBool True))]"

section \<open>Effects\<close>

text \<open>
  Creating the objects of an evaluated literal: each nested array and object is appended to
  the heap, at an address that was free, and the literal's value is the reference to the
  outermost one. No existing object is written.
\<close>

fun alloc :: "literal \<Rightarrow> heap \<Rightarrow> jsval \<times> heap"
  and alloc_list :: "literal list \<Rightarrow> heap \<Rightarrow> jsval list \<times> heap"
  and alloc_fields :: "(string \<times> literal) list \<Rightarrow> heap \<Rightarrow> (string \<times> jsval) list \<times> heap"
where
  "alloc (Val v) h = (v, h)"
| "alloc (ArrayLit ts) h =
     (case alloc_list ts h of (vs, h') \<Rightarrow> (JRef (length h'), h' @ [JArray vs]))"
| "alloc (ObjectLit fs) h =
     (case alloc_fields fs h of (gs, h') \<Rightarrow> (JRef (length h'), h' @ [JObject gs]))"
| "alloc_list [] h = ([], h)"
| "alloc_list (t # ts) h =
     (case alloc t h of (v, h') \<Rightarrow>
        (case alloc_list ts h' of (vs, h'') \<Rightarrow> (v # vs, h'')))"
| "alloc_fields [] h = ([], h)"
| "alloc_fields ((k, t) # fs) h =
     (case alloc t h of (v, h') \<Rightarrow>
        (case alloc_fields fs h' of (gs, h'') \<Rightarrow> ((k, v) # gs, h'')))"

text \<open>
  What the function can change: the heap, the calls of \<open>Plotly.newPlot\<close> made so far
  (the four arguments of each), and the children appended to the elements of the document
  (by element id). \<open>Plotly.newPlot\<close> is the charting library's: the model records the
  call and takes it to return. The element that \<open>document.getElementById(id)\<close> looks up
  is the one the library has just drawn into, and is taken to exist.
\<close>

record anchor =
  href :: string
  target :: string
  textContent :: string
  classList :: "string list"

record world =
  w_heap :: heap
  w_plots :: "(jsval \<times> jsval \<times> jsval \<times> jsval) list"
  w_children :: "string \<Rightarrow> anchor list"

text \<open>
  Lines 207-211. The first character of the text is the copyright sign, code unit
  \<open>0xA9\<close>.
\<close>

definition sourceLink :: anchor where
  "sourceLink =
     \<lparr>href = ''https://github.com/JPHutchins/article-assets/blob/main/call-stack-chart.js'',
      target = ''_blank'',
      textContent = CHR 0xA9 # '' 2024 JPHutchins + sparklerfish | Source Code'',
      classList = [''source-link'']\<rparr>"

text \<open>
  \<open>createCallStackChart\<close>, lines 51-213. The result is the world after the call and
  either the error thrown or the normal return.
\<close>

definition createCallStackChart :: "runtime \<Rightarrow> world \<Rightarrow> jsval \<Rightarrow> world \<times> (error + unit)" where
  "createCallStackChart rt w options =
     (let h = w_heap w in
      case bindE (validate argumentTypeNames h options) (\<lambda>_.
           bindE (getProp h options ''id'') (\<lambda>id.
           bindE (destructure h options) (\<lambda>b.
           bindE (callStackFrameSize rt h b) (\<lambda>frameSize.
           Inr (id, b, frameSize))))) of
        Inl e \<Rightarrow> (w, Inl e)
      | Inr (id', b, frameSize) \<Rightarrow>
          (case alloc (layout rt h b frameSize) h of (layoutRef, h1) \<Rightarrow>
             (case traces rt h1 b of
                Inl e \<Rightarrow> (w\<lparr>w_heap := h1\<rparr>, Inl e)
              | Inr data \<Rightarrow>
                  (case alloc (ArrayLit data) h1 of (dataRef, h2) \<Rightarrow>
                     (case alloc config h2 of (configRef, h3) \<Rightarrow>
                        (w\<lparr>w_heap := h3,
                           w_plots := w_plots w @ [(id', dataRef, layoutRef, configRef)],
                           w_children := (w_children w)
                             (ToString rt h3 id' := w_children w (ToString rt h3 id') @ [sourceLink])\<rparr>,
                         Inr ()))))))"

text \<open>
  \<open>createCallStackChart\<close> of the second variant, lines 258-391: the chart goes to the
  element \<^verbatim>\<open>call-stack-chart\<close>, and no link is appended.
\<close>

definition createCallStackChart2 :: "runtime \<Rightarrow> world \<Rightarrow> jsval \<Rightarrow> world \<times> (error + unit)" where
  "createCallStackChart2 rt w options =
     (let h = w_heap w in
      case bindE (validate argumentTypeNames2 h options) (\<lambda>_.
           bindE (destructure h options) (\<lambda>b.
           bindE (callStackFrameSize rt h b) (\<lambda>frameSize.
           Inr (b, frameSize)))) of
        Inl e \<Rightarrow> (w, Inl e)
      | Inr (b, frameSize) \<Rightarrow>
          (case alloc (layout2 rt h b frameSize) h of (layoutRef, h1) \<Rightarrow>
             (case traces2 rt h1 b of
                Inl e \<Rightarrow> (w\<lparr>w_heap := h1\<rparr>, Inl e)
              | Inr data \<Rightarrow>
                  (case alloc (ArrayLit data) h1 of (dataRef, h2) \<Rightarrow>
                     (case alloc config h2 of (configRef, h3) \<Rightarrow>
                        (w\<lparr>w_heap := h3,
                           w_plots := w_plots w
                             @ [(JStr ''call-stack-chart'', dataRef, layoutRef, configRef)]\<rparr>,
                         Inr ()))))))"

section \<open>Well-typed options\<close>

text \<open>
  The type that the source documents for \<open>options\<close> (the JSDoc typedef \<open>ArgumentType\<close>,
  lines 25-35): strings, numbers, booleans, and an array of \<open>{name, size, color}\<close>.
\<close>

record callArg =
  arg_name :: string
  arg_size :: jsnum
  arg_color :: string

record ArgumentType =
  cfg_id :: string
  cfg_title :: string
  cfg_returnValueSize :: jsnum
  cfg_returnValueOnCallStack :: bool
  cfg_callArgs :: "callArg list"
  cfg_linkRegister :: bool
  cfg_padding :: jsnum
  cfg_yMax :: jsnum

text \<open>
  The value \<open>e\<close> is, in the heap \<open>h\<close>, an object with the three properties of \<open>c\<close>;
  the value \<open>options\<close> is an object with the properties of \<open>cfg\<close> (all but \<open>id\<close> for the
  second variant, which reads no \<open>id\<close>), its \<open>callArgs\<close> an array of such objects.
\<close>

definition is_callArg :: "heap \<Rightarrow> jsval \<Rightarrow> callArg \<Rightarrow> bool" where
  "is_callArg h e c =
     (getProp h e ''name'' = Inr (JStr (arg_name c)) \<and>
      getProp h e ''size'' = Inr (JNum (arg_size c)) \<and>
      getProp h e ''color'' = Inr (JStr (arg_color c)))"

definition well_typed2 :: "heap \<Rightarrow> jsval \<Rightarrow> ArgumentType \<Rightarrow> bool" where
  "well_typed2 h options cfg =
     (getProp h options ''title'' = Inr (JStr (cfg_title cfg)) \<and>
      getProp h options ''returnValueSize'' = Inr (JNum (cfg_returnValueSize cfg)) \<and>
      getProp h options ''returnValueOnCallStack'' = Inr (JBool (cfg_returnValueOnCallStack cfg)) \<and>
      (case getProp h options ''callArgs'' of
         Inl e \<Rightarrow> False
       | Inr v \<Rightarrow>
           (case array_elements h v of
              Inl e \<Rightarrow> False
            | Inr es \<Rightarrow> list_all2 (is_callArg h) es (cfg_callArgs cfg))) \<and>
      getProp h options ''linkRegister'' = Inr (JBool (cfg_linkRegister cfg)) \<and>
      getProp h options ''padding'' = Inr (JNum (cfg_padding cfg)) \<and>
      getProp h options ''yMax'' = Inr (JNum (cfg_yMax cfg)))"

definition well_typed :: "heap \<Rightarrow> jsval \<Rightarrow> ArgumentType \<Rightarrow> bool" where
  "well_typed h options cfg =
     (getProp h options ''id'' = Inr (JStr (cfg_id cfg)) \<and> well_typed2 h options cfg)"

text \<open>
  The frame size as the specification writes it,
  \<^verbatim>\<open>frameSize = (returnValueOnCallStack ? returnValueSize : 0)
     + sum(arg.size for arg in callArgs) + (linkRegister ? 4 : 0) + 4 + padding\<close>,
  with the addition of numbers.
\<close>

definition spec_frameSize :: "jsnum \<Rightarrow> bool \<Rightarrow> jsnum list \<Rightarrow> bool \<Rightarrow> jsnum \<Rightarrow> jsnum" where
  "spec_frameSize returnValueSize returnValueOnCallStack sizes linkRegister padding =
     num_add
       (num_add
          (num_add
             (num_add
                (if returnValueOnCallStack then returnValueSize else Fin 0)
                (foldl num_add (Fin 0) sizes))
             (if linkRegister then Fin 4 else Fin 0))
          (Fin 4))
       padding"

definition is_finite :: "jsnum \<Rightarrow> bool" where
  "is_finite n = (case n of Fin q \<Rightarrow> True | _ \<Rightarrow> False)"

text \<open>
  A runtime at which the examples are evaluated. It writes an integer in decimal digits,
  as \<open>Number::toString\<close> does for the integers below \<open>10^21\<close>, and the three special
  values by their names; what it gives elsewhere is arbitrary, as are its two other
  conversions. The theorems hold for every runtime.
\<close>

fun decimal :: "nat \<Rightarrow> string" where
  "decimal n =
     (if n < 10 then [''0123456789'' ! n]
      else decimal (n div 10) @ [''0123456789'' ! (n mod 10)])"

definition example_runtime :: runtime where
  "example_runtime =
     \<lparr>NumberToString = (\<lambda>n.
         case n of
           Fin q \<Rightarrow> (if q < 0 then ''-'' else []) @ decimal (nat \<bar>\<lfloor>q\<rfloor>\<bar>)
         | NaN \<Rightarrow> ''NaN''
         | PInf \<Rightarrow> ''Infinity''
         | NInf \<Rightarrow> ''-Infinity''),
      StringToNumber = (\<lambda>s. NaN),
      ObjectToString = (\<lambda>h a. ''[object Object]'')\<rparr>"

section \<open>What the claims speak of\<close>

text \<open>
  The size-contributing fields of \<open>options\<close>, read as the program reads them:
  \<open>returnValueSize\<close>, \<open>returnValueOnCallStack\<close>, the \<open>size\<close> of each element of the
  array \<open>callArgs\<close>, \<open>linkRegister\<close> and \<open>padding\<close>.
\<close>

definition size_fields ::
    "heap \<Rightarrow> jsval \<Rightarrow> jsnum \<Rightarrow> bool \<Rightarrow> jsnum list \<Rightarrow> bool \<Rightarrow> jsnum \<Rightarrow> bool" where
  "size_fields h options returnValueSize returnValueOnCallStack sizes linkRegister padding =
     (getProp h options ''returnValueSize'' = Inr (JNum returnValueSize) \<and>
      getProp h options ''returnValueOnCallStack'' = Inr (JBool returnValueOnCallStack) \<and>
      (case getProp h options ''callArgs'' of
         Inl e \<Rightarrow> False
       | Inr v \<Rightarrow>
           (case array_elements h v of
              Inl e \<Rightarrow> False
            | Inr es \<Rightarrow> list_all2 (\<lambda>e n. getProp h e ''size'' = Inr (JNum n)) es sizes)) \<and>
      getProp h options ''linkRegister'' = Inr (JBool linkRegister) \<and>
      getProp h options ''padding'' = Inr (JNum padding))"

text \<open>The frame size that the program computes from \<open>options\<close>.\<close>

definition frameSize_of :: "runtime \<Rightarrow> heap \<Rightarrow> jsval \<Rightarrow> error + jsval" where
  "frameSize_of rt h options = bindE (destructure h options) (callStackFrameSize rt h)"

text \<open>
  The entry \<open>(arg, type)\<close> of a table is mismatched by \<open>options\<close>: the property can be
  read and its \<open>typeof\<close> is not \<open>type\<close>.
\<close>

definition mismatch :: "heap \<Rightarrow> jsval \<Rightarrow> string \<times> string \<Rightarrow> bool" where
  "mismatch h options entry =
     (case getProp h options (fst entry) of
        Inl e \<Rightarrow> False
      | Inr v \<Rightarrow> typeof v \<noteq> snd entry)"

text \<open>
  \<open>callArgs\<close> can be iterated with \<open>{size}\<close> destructured from each element: it is an
  array, and no element is \<open>undefined\<close> or \<open>null\<close>.
\<close>

definition callArgs_iterable :: "heap \<Rightarrow> jsval \<Rightarrow> bool" where
  "callArgs_iterable h options =
     (case getProp h options ''callArgs'' of
        Inl e \<Rightarrow> False
      | Inr v \<Rightarrow>
          (case array_elements h v of
             Inl e \<Rightarrow> False
           | Inr es \<Rightarrow> list_all (\<lambda>e. e \<noteq> JUndefined \<and> e \<noteq> JNull) es))"

text \<open>
  Reading a chart description back from the heap. The value \<open>v\<close> represents the literal
  \<open>t\<close> in the heap \<open>h\<close>, above the address \<open>n\<close>: every array and object of \<open>t\<close> is an
  object of \<open>h\<close> at an address that is at least \<open>n\<close>, with the elements and properties
  of \<open>t\<close> in order, and every leaf is the value written in \<open>t\<close>, a primitive. With
  \<open>n\<close> the size of the heap before a call, all that can be reached from \<open>v\<close> is in
  objects that the call has created.
\<close>

definition is_primitive :: "jsval \<Rightarrow> bool" where
  "is_primitive v = (case v of JRef a \<Rightarrow> False | _ \<Rightarrow> True)"

fun represents :: "nat \<Rightarrow> heap \<Rightarrow> jsval \<Rightarrow> literal \<Rightarrow> bool"
  and represents_list :: "nat \<Rightarrow> heap \<Rightarrow> jsval list \<Rightarrow> literal list \<Rightarrow> bool"
  and represents_fields ::
    "nat \<Rightarrow> heap \<Rightarrow> (string \<times> jsval) list \<Rightarrow> (string \<times> literal) list \<Rightarrow> bool"
where
  "represents n h v (Val x) = (v = x \<and> is_primitive x)"
| "represents n h v (ArrayLit ts) =
     (case v of
        JRef a \<Rightarrow>
          n \<le> a \<and>
          (case deref h a of Some (JArray vs) \<Rightarrow> represents_list n h vs ts | _ \<Rightarrow> False)
      | _ \<Rightarrow> False)"
| "represents n h v (ObjectLit fs) =
     (case v of
        JRef a \<Rightarrow>
          n \<le> a \<and>
          (case deref h a of Some (JObject gs) \<Rightarrow> represents_fields n h gs fs | _ \<Rightarrow> False)
      | _ \<Rightarrow> False)"
| "represents_list n h vs [] = (vs = [])"
| "represents_list n h vs (t # ts) =
     (case vs of [] \<Rightarrow> False | v # vs' \<Rightarrow> represents n h v t \<and> represents_list n h vs' ts)"
| "represents_fields n h gs [] = (gs = [])"
| "represents_fields n h gs ((k, t) # fs) =
     (case gs of
        [] \<Rightarrow> False
      | (k', v) # gs' \<Rightarrow> k' = k \<and> represents n h v t \<and> represents_fields n h gs' fs)"

text \<open>Every leaf of a literal is a primitive.\<close>

fun primitive_leaves :: "literal \<Rightarrow> bool"
  and primitive_leaves_list :: "literal list \<Rightarrow> bool"
  and primitive_leaves_fields :: "(string \<times> literal) list \<Rightarrow> bool"
where
  "primitive_leaves (Val x) = is_primitive x"
| "primitive_leaves (ArrayLit ts) = primitive_leaves_list ts"
| "primitive_leaves (ObjectLit fs) = primitive_leaves_fields fs"
| "primitive_leaves_list [] = True"
| "primitive_leaves_list (t # ts) = (primitive_leaves t \<and> primitive_leaves_list ts)"
| "primitive_leaves_fields [] = True"
| "primitive_leaves_fields ((k, t) # fs) = (primitive_leaves t \<and> primitive_leaves_fields fs)"

text \<open>
  The call \<open>res\<close> made in the world \<open>w\<close> has returned, and it has made one call of
  \<open>Plotly.newPlot\<close>, the last recorded: for the element \<open>element\<close>, with a data array, a
  layout and a configuration that represent \<open>data\<close>, \<open>lay\<close> and \<open>config\<close> in objects
  created by the call.
\<close>

definition emitted ::
    "world \<Rightarrow> world \<times> (error + unit) \<Rightarrow> jsval \<Rightarrow> literal \<Rightarrow> literal list \<Rightarrow> bool" where
  "emitted w res element lay data =
     (case res of
        (w', r) \<Rightarrow>
          r = Inr () \<and> w_plots w' = w_plots w @ [last (w_plots w')] \<and>
          (case last (w_plots w') of
             (el, dataRef, layoutRef, configRef) \<Rightarrow>
               el = element \<and>
               represents (length (w_heap w)) (w_heap w') dataRef (ArrayLit data) \<and>
               represents (length (w_heap w)) (w_heap w') layoutRef lay \<and>
               represents (length (w_heap w)) (w_heap w') configRef config))"

text \<open>
  A segment is what a trace shows: its column \<open>x[0]\<close>, its \<open>text\<close>, its size \<open>y[0]\<close>,
  its \<open>marker.color\<close> and its \<open>marker.pattern.shape\<close> (\<open>undefined\<close> where a trace has
  none).
\<close>

fun lit_field :: "literal \<Rightarrow> string \<Rightarrow> literal" where
  "lit_field (ObjectLit fs) k = (case map_of fs k of None \<Rightarrow> Val JUndefined | Some t \<Rightarrow> t)"
| "lit_field _ k = Val JUndefined"

fun lit_first :: "literal \<Rightarrow> literal" where
  "lit_first (ArrayLit (t # ts)) = t"
| "lit_first _ = Val JUndefined"

fun lit_value :: "literal \<Rightarrow> jsval" where
  "lit_value (Val v) = v"
| "lit_value _ = JUndefined"

record segment =
  seg_x :: jsval
  seg_text :: jsval
  seg_y :: jsval
  seg_color :: jsval
  seg_shape :: jsval

definition segment_of :: "literal \<Rightarrow> segment" where
  "segment_of t =
     \<lparr>seg_x = lit_value (lit_first (lit_field t ''x'')),
      seg_text = lit_value (lit_field t ''text''),
      seg_y = lit_value (lit_first (lit_field t ''y'')),
      seg_color = lit_value (lit_field (lit_field t ''marker'') ''color''),
      seg_shape = lit_value (lit_field (lit_field (lit_field t ''marker'') ''pattern'') ''shape'')\<rparr>"

text \<open>The segments of the During Call column, in the order of the data array (bottom to top).\<close>

definition during_call :: "literal list \<Rightarrow> segment list" where
  "during_call data = filter (\<lambda>s. seg_x s = JStr DURING_CALL) (map segment_of data)"

text \<open>A segment of the During Call column, and the segment of the call argument at an index.\<close>

definition during :: "string \<Rightarrow> jsnum \<Rightarrow> string \<Rightarrow> jsval \<Rightarrow> segment" where
  "during label n c shape =
     \<lparr>seg_x = JStr DURING_CALL, seg_text = JStr label, seg_y = JNum n, seg_color = JStr c,
      seg_shape = shape\<rparr>"

definition argument_segment :: "runtime \<Rightarrow> jsval \<Rightarrow> nat \<times> callArg \<Rightarrow> segment" where
  "argument_segment rt shape ic =
     during (''Argument '' @ NumberToString rt (Fin (of_nat (fst ic)))
             @ '' ('' @ arg_name (snd ic) @ '')'')
       (arg_size (snd ic)) (arg_color (snd ic)) shape"

definition is_argument_segment :: "segment \<Rightarrow> bool" where
  "is_argument_segment s =
     (case seg_text s of JStr label \<Rightarrow> take 9 label = ''Argument '' | _ \<Rightarrow> False)"

section \<open>Examples\<close>

text \<open>
  The example of the specification: \<open>returnValueSize = 4\<close>,
  \<open>returnValueOnCallStack = false\<close>, \<open>callArgs = [{name: "x", size: 4, color: "red"}]\<close>,
  \<open>linkRegister = true\<close>, \<open>padding = 4\<close>, with an id, a title and a \<open>yMax\<close>. The heap
  \<open>heap_with fs\<close> holds an options object with the properties \<open>fs\<close> at address 0, the
  array of the example at address 1 and its element at address 2.
\<close>

definition heap_with :: "(string \<times> jsval) list \<Rightarrow> heap" where
  "heap_with fs =
     [JObject fs,
      JArray [JRef 2],
      JObject [(''name'', JStr ''x''), (''size'', JNum (Fin 4)), (''color'', JStr ''red'')]]"

definition example_fields :: "(string \<times> jsval) list" where
  "example_fields =
     [(''id'', JStr ''chart''),
      (''title'', JStr ''Call''),
      (''returnValueSize'', JNum (Fin 4)),
      (''returnValueOnCallStack'', JBool False),
      (''callArgs'', JRef 1),
      (''linkRegister'', JBool True),
      (''padding'', JNum (Fin 4)),
      (''yMax'', JNum (Fin 32))]"

definition example_cfg :: ArgumentType where
  "example_cfg =
     \<lparr>cfg_id = ''chart'', cfg_title = ''Call'', cfg_returnValueSize = Fin 4,
      cfg_returnValueOnCallStack = False,
      cfg_callArgs = [\<lparr>arg_name = ''x'', arg_size = Fin 4, arg_color = ''red''\<rparr>],
      cfg_linkRegister = True, cfg_padding = Fin 4, cfg_yMax = Fin 32\<rparr>"

definition world_with :: "(string \<times> jsval) list \<Rightarrow> world" where
  "world_with fs = \<lparr>w_heap = heap_with fs, w_plots = [], w_children = (\<lambda>el. [])\<rparr>"

text \<open>The example with \<open>returnValueOnCallStack = true\<close>.\<close>

definition on_stack_fields :: "(string \<times> jsval) list" where
  "on_stack_fields =
     [(''id'', JStr ''chart''),
      (''title'', JStr ''Call''),
      (''returnValueSize'', JNum (Fin 4)),
      (''returnValueOnCallStack'', JBool True),
      (''callArgs'', JRef 1),
      (''linkRegister'', JBool True),
      (''padding'', JNum (Fin 4)),
      (''yMax'', JNum (Fin 32))]"

text \<open>The example with \<open>callArgs: null\<close>.\<close>

definition null_callArgs_fields :: "(string \<times> jsval) list" where
  "null_callArgs_fields =
     [(''id'', JStr ''chart''),
      (''title'', JStr ''Call''),
      (''returnValueSize'', JNum (Fin 4)),
      (''returnValueOnCallStack'', JBool False),
      (''callArgs'', JNull),
      (''linkRegister'', JBool True),
      (''padding'', JNum (Fin 4)),
      (''yMax'', JNum (Fin 32))]"

text \<open>The example with \<open>returnValueSize: Infinity\<close>.\<close>

definition infinite_size_fields :: "(string \<times> jsval) list" where
  "infinite_size_fields =
     [(''id'', JStr ''chart''),
      (''title'', JStr ''Call''),
      (''returnValueSize'', JNum PInf),
      (''returnValueOnCallStack'', JBool False),
      (''callArgs'', JRef 1),
      (''linkRegister'', JBool True),
      (''padding'', JNum (Fin 4)),
      (''yMax'', JNum (Fin 32))]"

text \<open>The example with \<open>linkRegister: "yes"\<close>.\<close>

definition string_linkRegister_fields :: "(string \<times> jsval) list" where
  "string_linkRegister_fields =
     [(''id'', JStr ''chart''),
      (''title'', JStr ''Call''),
      (''returnValueSize'', JNum (Fin 4)),
      (''returnValueOnCallStack'', JBool False),
      (''callArgs'', JRef 1),
      (''linkRegister'', JStr ''yes''),
      (''padding'', JNum (Fin 4)),
      (''yMax'', JNum (Fin 32))]"

text \<open>The example with \<open>id: 7\<close>, and the example with a further property.\<close>

definition number_id_fields :: "(string \<times> jsval) list" where
  "number_id_fields =
     [(''id'', JNum (Fin 7)),
      (''title'', JStr ''Call''),
      (''returnValueSize'', JNum (Fin 4)),
      (''returnValueOnCallStack'', JBool False),
      (''callArgs'', JRef 1),
      (''linkRegister'', JBool True),
      (''padding'', JNum (Fin 4)),
      (''yMax'', JNum (Fin 32))]"

definition extra_fields :: "(string \<times> jsval) list" where
  "extra_fields = (''theme'', JNum (Fin 1)) # example_fields"

section \<open>Well-typed options, as the program sees them\<close>

text \<open>
  The constants that the destructuring binds from well-typed options whose \<open>callArgs\<close> is
  the value \<open>v\<close>, and the segments of the chart of a well-typed configuration as the
  specification lists them (section 4.1, segment assembly): the Before Call column, the
  During Call column from bottom to top, the After Call column, with the colours and the
  pattern shapes that the first and the second variant give them.
\<close>

definition typed_bindings :: "ArgumentType \<Rightarrow> jsval \<Rightarrow> bindings" where
  "typed_bindings cfg v =
     \<lparr>opt_title = JStr (cfg_title cfg),
      opt_returnValueSize = JNum (cfg_returnValueSize cfg),
      opt_returnValueOnCallStack = JBool (cfg_returnValueOnCallStack cfg),
      opt_callArgs = v,
      opt_linkRegister = JBool (cfg_linkRegister cfg),
      opt_padding = JNum (cfg_padding cfg),
      opt_yMax = JNum (cfg_yMax cfg)\<rparr>"

definition chart_segments :: "runtime \<Rightarrow> ArgumentType \<Rightarrow> segment list" where
  "chart_segments rt cfg =
     [\<lparr>seg_x = JStr BEFORE_CALL, seg_text = JStr ''Return Value'',
       seg_y = JNum (cfg_returnValueSize cfg), seg_color = JStr ''lightgrey'',
       seg_shape = JStr []\<rparr>,
      (if cfg_returnValueOnCallStack cfg
       then during ''Return Value'' (cfg_returnValueSize cfg) ''lightgrey'' (JStr [])
       else during ''Return Value'' (cfg_returnValueSize cfg) ''lightblue'' (JStr ''/''))]
     @ (if cfg_linkRegister cfg
        then [during ''Link Register'' (Fin 4) ''lightgreen'' (JStr [])]
        else [])
     @ [during ''Frame Pointer'' (Fin 4) ''lightgreen'' (JStr [])]
     @ map (argument_segment rt (JStr [])) (enumerate 0 (cfg_callArgs cfg))
     @ (if cfg_returnValueOnCallStack cfg
        then [during ''Return Value'' (cfg_returnValueSize cfg) ''lightblue'' (JStr ''/'')]
        else [])
     @ [during ''Padding'' (cfg_padding cfg) ''white'' (JStr []),
        \<lparr>seg_x = JStr AFTER_CALL, seg_text = JStr ''Return Value'',
         seg_y = JNum (cfg_returnValueSize cfg), seg_color = JStr ''lightblue'',
         seg_shape = JStr []\<rparr>]"

definition chart_segments2 :: "runtime \<Rightarrow> ArgumentType \<Rightarrow> segment list" where
  "chart_segments2 rt cfg =
     [\<lparr>seg_x = JStr BEFORE_CALL, seg_text = JStr ''Return Value'',
       seg_y = JNum (cfg_returnValueSize cfg), seg_color = JStr ''lightgrey'',
       seg_shape = JUndefined\<rparr>,
      during ''Return Value'' (cfg_returnValueSize cfg)
        (if cfg_returnValueOnCallStack cfg then ''lightgrey'' else ''lightblue'') JUndefined]
     @ (if cfg_linkRegister cfg
        then [during ''Link Register'' (Fin 4) ''lightgreen'' JUndefined]
        else [])
     @ [during ''Frame Pointer'' (Fin 4) ''lightgreen'' JUndefined]
     @ map (argument_segment rt JUndefined) (enumerate 0 (cfg_callArgs cfg))
     @ (if cfg_returnValueOnCallStack cfg
        then [during ''Return Value'' (cfg_returnValueSize cfg) ''lightblue'' JUndefined]
        else [])
     @ [during ''Padding'' (cfg_padding cfg) ''white'' JUndefined,
        \<lparr>seg_x = JStr AFTER_CALL, seg_text = JStr ''Return Value'',
         seg_y = JNum (cfg_returnValueSize cfg), seg_color = JStr ''lightblue'',
         seg_shape = JUndefined\<rparr>]"

text \<open>The example with the size of its one call argument the string \<open>"4"\<close>.\<close>

definition string_size_heap :: heap where
  "string_size_heap =
     [JObject example_fields,
      JArray [JRef 2],
      JObject [(''name'', JStr ''x''), (''size'', JStr ''4''), (''color'', JStr ''red'')]]"

text \<open>The example with \<open>title: 5\<close> and \<open>linkRegister: "yes"\<close>.\<close>

definition two_mistyped_fields :: "(string \<times> jsval) list" where
  "two_mistyped_fields =
     [(''id'', JStr ''chart''),
      (''title'', JNum (Fin 5)),
      (''returnValueSize'', JNum (Fin 4)),
      (''returnValueOnCallStack'', JBool False),
      (''callArgs'', JRef 1),
      (''linkRegister'', JStr ''yes''),
      (''padding'', JNum (Fin 4)),
      (''yMax'', JNum (Fin 32))]"

text \<open>
  The typed configuration of the example with \<open>returnValueOnCallStack = true\<close>, and the
  example with \<open>linkRegister = false\<close>.
\<close>

definition on_stack_cfg :: ArgumentType where
  "on_stack_cfg = example_cfg\<lparr>cfg_returnValueOnCallStack := True\<rparr>"

definition no_link_fields :: "(string \<times> jsval) list" where
  "no_link_fields =
     [(''id'', JStr ''chart''),
      (''title'', JStr ''Call''),
      (''returnValueSize'', JNum (Fin 4)),
      (''returnValueOnCallStack'', JBool False),
      (''callArgs'', JRef 1),
      (''linkRegister'', JBool False),
      (''padding'', JNum (Fin 4)),
      (''yMax'', JNum (Fin 32))]"

definition no_link_cfg :: ArgumentType where
  "no_link_cfg = example_cfg\<lparr>cfg_linkRegister := False\<rparr>"




declare decimal.simps [simp del]

section \<open>Reading and arithmetic\<close>

lemma bindE_simps [simp]:
  "bindE (Inl e) f = Inl e"
  "bindE (Inr x) f = f x"
  by (simp_all add: bindE_def)


lemma getProp_object:
  "v \<noteq> JUndefined \<Longrightarrow> v \<noteq> JNull \<Longrightarrow> \<exists>x. getProp h v k = Inr x"
  by (cases v) (auto split: option.splits jsobj.splits)

lemma getProp_value_object: "getProp h v k = Inr x \<Longrightarrow> v \<noteq> JUndefined \<and> v \<noteq> JNull"
  by (cases v) auto

lemma js_add_num [simp]: "js_add rt h (JNum a) (JNum b) = JNum (num_add a b)"
  by (simp add: js_add_def)

lemma js_mul_num [simp]: "js_mul rt h (JNum a) (JNum b) = JNum (num_mul a b)"
  by (simp add: js_mul_def)

lemma num_add_zero [simp]: "num_add (Fin 0) n = n"
  by (cases n) simp_all

lemma num_mul_one [simp]: "num_mul n (Fin 1) = n"
  by (cases n) (simp_all add: signed_inf_def)

lemma num_mul_flag:
  "returnValueOnCallStack \<or> is_finite n \<Longrightarrow>
   num_mul n (Fin (if returnValueOnCallStack then 1 else 0)) =
     (if returnValueOnCallStack then n else Fin 0)"
  by (auto simp: is_finite_def split: jsnum.splits)



section \<open>What the validation does\<close>

lemma validate_find:
  assumes "options \<noteq> JUndefined" "options \<noteq> JNull"
  shows "validate table h options =
     (case find (mismatch h options) table of
        None \<Rightarrow> Inr ()
      | Some (arg, type) \<Rightarrow> Inl (Error (''Expected '' @ arg @ '' to be of type '' @ type)))"
proof (induction table)
  case Nil
  show ?case by simp
next
  case (Cons entry table)
  obtain arg type where entry: "entry = (arg, type)" by (cases entry)
  from getProp_object [OF assms] obtain x where x: "getProp h options arg = Inr x" by blast
  with Cons entry show ?case by (simp add: mismatch_def)
qed

lemma find_mismatch_object:
  assumes "find (mismatch h options) table = Some entry"
  shows "options \<noteq> JUndefined \<and> options \<noteq> JNull"
proof -
  from assms have "mismatch h options entry" by (auto simp: find_Some_iff)
  then obtain x where "getProp h options (fst entry) = Inr x"
    by (auto simp: mismatch_def split: sum.splits)
  then show ?thesis by (rule getProp_value_object)
qed

lemma validate_mismatch:
  assumes "find (mismatch h options) table = Some (arg, type)"
  shows "validate table h options = Inl (Error (''Expected '' @ arg @ '' to be of type '' @ type))"
proof -
  from find_mismatch_object [OF assms] have "options \<noteq> JUndefined" "options \<noteq> JNull" by simp_all
  from validate_find [OF this] assms show ?thesis by simp
qed


lemma validate_accepted_object:
  assumes "validate table h options = Inr ()" "table \<noteq> []"
  shows "options \<noteq> JUndefined \<and> options \<noteq> JNull"
proof -
  from assms(2) obtain arg type rest where t: "table = (arg, type) # rest"
    by (cases table) auto
  with assms(1) obtain x where "getProp h options arg = Inr x"
    by (auto split: sum.splits)
  then show ?thesis by (rule getProp_value_object)
qed

lemma validate_same_fields:
  assumes "\<forall>k \<in> set (map fst table). getProp h options k = getProp h' options' k"
  shows "validate table h options = validate table h' options'"
  using assms
proof (induction table)
  case Nil
  show ?case by simp
next
  case (Cons entry table)
  obtain arg type where entry: "entry = (arg, type)" by (cases entry)
  from Cons.prems have "validate table h options = validate table h' options'"
    by (intro Cons.IH) simp
  with Cons.prems entry show ?case by (simp split: sum.splits)
qed

section \<open>The heap grows\<close>

lemma deref_append: "deref h a = Some ob \<Longrightarrow> deref (h @ ext) a = Some ob"
  by (auto simp: deref_def nth_append split: if_splits)

lemma deref_fresh [simp]: "deref (h @ [ob]) (length h) = Some ob"
  by (simp add: deref_def)

lemma getProp_append:
  assumes "getProp h e k = Inr v" "v \<noteq> JUndefined"
  shows "getProp (h @ ext) e k = Inr v"
proof (cases e)
  case (JRef a)
  with assms obtain fs where "deref h a = Some (JObject fs)" "own_property fs k = v"
    by (auto split: option.splits jsobj.splits)
  with JRef deref_append [of h a "JObject fs" ext] show ?thesis by simp
qed (use assms in auto)

lemma array_elements_append:
  assumes "array_elements h v = Inr es"
  shows "array_elements (h @ ext) v = Inr es"
proof (cases v)
  case (JRef a)
  with assms have "deref h a = Some (JArray es)"
    by (auto split: option.splits jsobj.splits)
  with JRef deref_append [of h a "JArray es" ext] show ?thesis by simp
qed (use assms in auto)

lemma is_callArg_append: "is_callArg h e c \<Longrightarrow> is_callArg (h @ ext) e c"
  by (simp add: is_callArg_def getProp_append)

lemma list_all2_is_callArg_append:
  "list_all2 (is_callArg h) es cs \<Longrightarrow> list_all2 (is_callArg (h @ ext)) es cs"
  by (erule list_all2_mono) (rule is_callArg_append)

lemma represents_append:
  "represents n h v t \<Longrightarrow> represents n (h @ ext) v t"
  "represents_list n h vs ts \<Longrightarrow> represents_list n (h @ ext) vs ts"
  "represents_fields n h gs fs \<Longrightarrow> represents_fields n (h @ ext) gs fs"
proof (induction n h v t and n h vs ts and n h gs fs
    rule: represents_represents_list_represents_fields.induct)
  case (2 n h v ts)
  from "2.prems" obtain a vs where v: "v = JRef a" "n \<le> a" "deref h a = Some (JArray vs)"
    and r: "represents_list n h vs ts"
    by (auto split: jsval.splits option.splits jsobj.splits)
  from "2.IH" [OF v(1) v(3) refl r] have "represents_list n (h @ ext) vs ts" .
  with v deref_append [OF v(3), of ext] show ?case by simp
next
  case (3 n h v fs)
  from "3.prems" obtain a gs where v: "v = JRef a" "n \<le> a" "deref h a = Some (JObject gs)"
    and r: "represents_fields n h gs fs"
    by (auto split: jsval.splits option.splits jsobj.splits)
  from "3.IH" [OF v(1) v(3) refl r] have "represents_fields n (h @ ext) gs fs" .
  with v deref_append [OF v(3), of ext] show ?case by simp
qed (auto split: list.splits)

lemma alloc_extends:
  "alloc t h = (v, h') \<Longrightarrow> \<exists>ext. h' = h @ ext"
  "alloc_list ts h = (vs, h') \<Longrightarrow> \<exists>ext. h' = h @ ext"
  "alloc_fields fs h = (gs, h') \<Longrightarrow> \<exists>ext. h' = h @ ext"
proof (induction t h and ts h and fs h arbitrary: v h' and vs h' and gs h'
    rule: alloc_alloc_list_alloc_fields.induct)
  case (2 ts h)
  then show ?case by (fastforce split: prod.splits)
next
  case (3 fs h)
  then show ?case by (fastforce split: prod.splits)
next
  case (5 t ts h)
  then show ?case by (fastforce split: prod.splits)
next
  case (7 k t fs h)
  then show ?case by (fastforce split: prod.splits)
qed auto

lemma alloc_represents:
  "alloc t h = (v, h') \<Longrightarrow> primitive_leaves t \<Longrightarrow> n \<le> length h \<Longrightarrow> represents n h' v t"
  "alloc_list ts h = (vs, h') \<Longrightarrow> primitive_leaves_list ts \<Longrightarrow> n \<le> length h \<Longrightarrow>
   represents_list n h' vs ts"
  "alloc_fields fs h = (gs, h') \<Longrightarrow> primitive_leaves_fields fs \<Longrightarrow> n \<le> length h \<Longrightarrow>
   represents_fields n h' gs fs"
proof (induction t h and ts h and fs h arbitrary: v h' and vs h' and gs h'
    rule: alloc_alloc_list_alloc_fields.induct)
  case (1 x h)
  then show ?case by auto
next
  case (2 ts h)
  obtain vs h1 where a: "alloc_list ts h = (vs, h1)" by (cases "alloc_list ts h")
  from alloc_extends(2) [OF a] obtain ext where e: "h1 = h @ ext" by blast
  from "2.IH" [OF a] "2.prems" have "represents_list n h1 vs ts" by simp
  then have "represents_list n (h1 @ [JArray vs]) vs ts" by (rule represents_append)
  moreover from e "2.prems" have "n \<le> length h1" by simp
  ultimately show ?case using a "2.prems"(1) by auto
next
  case (3 fs h)
  obtain gs h1 where a: "alloc_fields fs h = (gs, h1)" by (cases "alloc_fields fs h")
  from alloc_extends(3) [OF a] obtain ext where e: "h1 = h @ ext" by blast
  from "3.IH" [OF a] "3.prems" have "represents_fields n h1 gs fs" by simp
  then have "represents_fields n (h1 @ [JObject gs]) gs fs" by (rule represents_append)
  moreover from e "3.prems" have "n \<le> length h1" by simp
  ultimately show ?case using a "3.prems"(1) by auto
next
  case (4 h)
  then show ?case by auto
next
  case (5 t ts h)
  obtain v1 h1 where a: "alloc t h = (v1, h1)" by (cases "alloc t h")
  obtain vs2 h2 where b: "alloc_list ts h1 = (vs2, h2)" by (cases "alloc_list ts h1")
  from alloc_extends(1) [OF a] obtain e1 where e1: "h1 = h @ e1" by blast
  from alloc_extends(2) [OF b] obtain e2 where e2: "h2 = h1 @ e2" by blast
  from "5.IH"(1) [OF a] "5.prems" have r1: "represents n h1 v1 t" by simp
  from "5.IH"(2) [OF a [symmetric] b] "5.prems" e1 have r2: "represents_list n h2 vs2 ts"
    by simp
  from r1 e2 have "represents n h2 v1 t" by (simp add: represents_append)
  with r2 a b "5.prems" show ?case by auto
next
  case (6 h)
  then show ?case by auto
next
  case (7 k t fs h)
  obtain v1 h1 where a: "alloc t h = (v1, h1)" by (cases "alloc t h")
  obtain gs2 h2 where b: "alloc_fields fs h1 = (gs2, h2)" by (cases "alloc_fields fs h1")
  from alloc_extends(1) [OF a] obtain e1 where e1: "h1 = h @ e1" by blast
  from alloc_extends(3) [OF b] obtain e2 where e2: "h2 = h1 @ e2" by blast
  from "7.IH"(1) [OF a] "7.prems" have r1: "represents n h1 v1 t" by simp
  from "7.IH"(2) [OF a [symmetric] b] "7.prems" e1 have r2: "represents_fields n h2 gs2 fs"
    by simp
  from r1 e2 have "represents n h2 v1 t" by (simp add: represents_append)
  with r2 a b "7.prems" show ?case by auto
qed

section \<open>The leaves of the description\<close>

lemma is_primitive_simps [simp]:
  "is_primitive JUndefined" "is_primitive JNull" "is_primitive (JBool b)"
  "is_primitive (JNum n)" "is_primitive (JStr s)" "\<not> is_primitive (JRef a)"
  by (simp_all add: is_primitive_def)

lemma js_add_primitive [simp]: "is_primitive (js_add rt h a b)"
  by (simp add: js_add_def Let_def)

lemma primitive_leaves_barStack:
  "is_primitive x \<Longrightarrow> is_primitive y \<Longrightarrow> is_primitive color \<Longrightarrow> is_primitive shape \<Longrightarrow>
   is_primitive text \<Longrightarrow> primitive_leaves (barStack x y color shape text)"
  by (simp add: barStack_def)

lemma primitive_leaves_barStack2:
  "is_primitive x \<Longrightarrow> is_primitive y \<Longrightarrow> is_primitive color \<Longrightarrow> is_primitive text \<Longrightarrow>
   primitive_leaves (barStack2 x y color text)"
  by (simp add: barStack2_def)

lemma primitive_leaves_layout: "primitive_leaves (layout rt h (typed_bindings cfg v) frameSize)"
  by (simp add: layout_def typed_bindings_def js_sub_def js_div_def)

lemma primitive_leaves_layout2: "primitive_leaves (layout2 rt h (typed_bindings cfg v) frameSize)"
  by (simp add: layout2_def typed_bindings_def js_sub_def js_div_def)

lemma primitive_leaves_config: "primitive_leaves config"
  by (simp add: config_def)

lemma primitive_leaves_list_append:
  "primitive_leaves_list (xs @ ys) = (primitive_leaves_list xs \<and> primitive_leaves_list ys)"
  by (induction xs) simp_all

lemma segment_of_barStack:
  "segment_of (barStack x y color shape text) =
     \<lparr>seg_x = x, seg_text = text, seg_y = y, seg_color = color, seg_shape = shape\<rparr>"
  by (simp add: segment_of_def barStack_def)

lemma segment_of_barStack2:
  "segment_of (barStack2 x y color text) =
     \<lparr>seg_x = x, seg_text = text, seg_y = y, seg_color = color, seg_shape = JUndefined\<rparr>"
  by (simp add: segment_of_def barStack2_def)

section \<open>The examples, evaluated\<close>

lemma deref_heap_with [simp]:
  "deref (heap_with fs) 0 = Some (JObject fs)"
  "deref (heap_with fs) (Suc 0) = Some (JArray [JRef 2])"
  "deref (heap_with fs) 2 =
     Some (JObject [(''name'', JStr ''x''), (''size'', JNum (Fin 4)), (''color'', JStr ''red'')])"
  by (simp_all add: heap_with_def deref_def)

lemma w_heap_world_with [simp]: "w_heap (world_with fs) = heap_with fs"
  by (simp add: world_with_def)

lemma example_accepted: "validate argumentTypeNames (heap_with example_fields) (JRef 0) = Inr ()"
  by (simp add: argumentTypeNames_def example_fields_def own_property_def)

lemma example_size_fields:
  "size_fields (heap_with example_fields) (JRef 0) (Fin 4) False [Fin 4] True (Fin 4)"
  by (simp add: size_fields_def example_fields_def own_property_def)

section \<open>The frame size and the formula\<close>

lemma reduce_size_sizes:
  "list_all2 (\<lambda>e n. getProp h e ''size'' = Inr (JNum n)) es sizes \<Longrightarrow>
   reduce_size rt h (JNum acc) es = Inr (JNum (foldl num_add acc sizes))"
proof (induction es sizes arbitrary: acc rule: list_all2_induct)
  case Nil
  then show ?case by simp
next
  case (Cons e es n sizes)
  then show ?case by simp
qed

lemma size_fields_frameSize:
  assumes s: "size_fields h options returnValueSize returnValueOnCallStack sizes linkRegister padding"
    and f: "returnValueOnCallStack \<or> is_finite returnValueSize"
  shows "frameSize_of rt h options =
     Inr (JNum (spec_frameSize returnValueSize returnValueOnCallStack sizes linkRegister padding))"
proof -
  from s have r: "getProp h options ''returnValueSize'' = Inr (JNum returnValueSize)"
    and c: "getProp h options ''returnValueOnCallStack'' = Inr (JBool returnValueOnCallStack)"
    and l: "getProp h options ''linkRegister'' = Inr (JBool linkRegister)"
    and p: "getProp h options ''padding'' = Inr (JNum padding)"
    by (simp_all add: size_fields_def)
  from s obtain v es where v: "getProp h options ''callArgs'' = Inr v"
    and es: "array_elements h v = Inr es"
    and sz: "list_all2 (\<lambda>e n. getProp h e ''size'' = Inr (JNum n)) es sizes"
    by (auto simp: size_fields_def split: sum.splits)
  from getProp_value_object [OF r] have o: "options \<noteq> JUndefined" "options \<noteq> JNull" by simp_all
  from getProp_object [OF o] obtain t where t: "getProp h options ''title'' = Inr t" by blast
  from getProp_object [OF o] obtain y where y: "getProp h options ''yMax'' = Inr y" by blast
  show ?thesis
    by (simp add: frameSize_of_def destructure_def t r c v l p y callStackFrameSize_def es
        reduce_size_sizes [OF sz] num_mul_flag [OF f] spec_frameSize_def)
qed

text \<open>
  Claim C1, as amended. For every options object that the validation of either variant
  accepts, whose \<open>callArgs\<close> is an array of elements that each have a number as \<open>size\<close>, and
  whose \<open>returnValueSize\<close> is finite unless the return value is on the call stack, the
  frame size that the program computes is the number
  \<open>(returnValueOnCallStack ? returnValueSize : 0) + sum of the sizes in order
  + (linkRegister ? 4 : 0) + 4 + padding\<close>.
\<close>

theorem frame_size_formula:
  assumes "validate argumentTypeNames h options = Inr () \<or>
           validate argumentTypeNames2 h options = Inr ()"
    and "size_fields h options returnValueSize returnValueOnCallStack sizes linkRegister padding"
    and "returnValueOnCallStack \<or> is_finite returnValueSize"
  shows "frameSize_of rt h options =
     Inr (JNum (spec_frameSize returnValueSize returnValueOnCallStack sizes linkRegister padding))"
  using assms(2,3) by (rule size_fields_frameSize)

text \<open>
  Claim C1, the example of the claim: for \<open>returnValueSize = 4\<close>,
  \<open>returnValueOnCallStack = false\<close>, one call argument of size 4, \<open>linkRegister = true\<close>
  and \<open>padding = 4\<close> the options are accepted and the frame size is 16.
\<close>

theorem frame_size_formula_example:
  "validate argumentTypeNames (heap_with example_fields) (JRef 0) = Inr () \<and>
   size_fields (heap_with example_fields) (JRef 0) (Fin 4) False [Fin 4] True (Fin 4) \<and>
   frameSize_of example_runtime (heap_with example_fields) (JRef 0) = Inr (JNum (Fin 16))"
proof -
  have f: "False \<or> is_finite (Fin 4)" by (simp add: is_finite_def)
  from frame_size_formula [OF disjI1 [OF example_accepted] example_size_fields f, of example_runtime]
  have "frameSize_of example_runtime (heap_with example_fields) (JRef 0) = Inr (JNum (Fin 16))"
    by (simp add: spec_frameSize_def)
  with example_accepted example_size_fields show ?thesis by simp
qed

text \<open>
  Claim C1 as it is stated, for every options object that the validation accepts, fails.
  With \<open>callArgs: null\<close> the options are accepted (\<open>typeof null\<close> is \<open>"object"\<close>) and
  no frame size is computed: \<open>callArgs.reduce\<close> throws a TypeError. With
  \<open>returnValueSize: Infinity\<close> and the return value not on the call stack the options are
  accepted and the frame size is \<open>NaN\<close> (\<open>Infinity * 0\<close>), where the formula gives 16. With
  the size of the call argument the string \<open>"4"\<close> the options are accepted and the frame
  size is the string \<open>"004444"\<close>.
\<close>

theorem frame_size_counterexample:
  "validate argumentTypeNames (heap_with null_callArgs_fields) (JRef 0) = Inr () \<and>
   frameSize_of example_runtime (heap_with null_callArgs_fields) (JRef 0) = Inl TypeError \<and>
   validate argumentTypeNames (heap_with infinite_size_fields) (JRef 0) = Inr () \<and>
   frameSize_of example_runtime (heap_with infinite_size_fields) (JRef 0) = Inr (JNum NaN) \<and>
   spec_frameSize PInf False [Fin 4] True (Fin 4) = Fin 16 \<and>
   validate argumentTypeNames string_size_heap (JRef 0) = Inr () \<and>
   frameSize_of example_runtime string_size_heap (JRef 0) = Inr (JStr ''004444'')"
proof (intro conjI)
  show "validate argumentTypeNames (heap_with null_callArgs_fields) (JRef 0) = Inr ()"
    by (simp add: argumentTypeNames_def null_callArgs_fields_def own_property_def)
  show "frameSize_of example_runtime (heap_with null_callArgs_fields) (JRef 0) = Inl TypeError"
    by (simp add: frameSize_of_def destructure_def callStackFrameSize_def
        null_callArgs_fields_def own_property_def)
  show "validate argumentTypeNames (heap_with infinite_size_fields) (JRef 0) = Inr ()"
    by (simp add: argumentTypeNames_def infinite_size_fields_def own_property_def)
  show "frameSize_of example_runtime (heap_with infinite_size_fields) (JRef 0) = Inr (JNum NaN)"
    by (simp add: frameSize_of_def destructure_def callStackFrameSize_def
        infinite_size_fields_def own_property_def signed_inf_def)
  show "spec_frameSize PInf False [Fin 4] True (Fin 4) = Fin 16"
    by (simp add: spec_frameSize_def)
  have d: "deref string_size_heap 0 = Some (JObject example_fields)"
    "deref string_size_heap (Suc 0) = Some (JArray [JRef 2])"
    "deref string_size_heap 2 =
       Some (JObject [(''name'', JStr ''x''), (''size'', JStr ''4''), (''color'', JStr ''red'')])"
    by (simp_all add: string_size_heap_def deref_def)
  show "validate argumentTypeNames string_size_heap (JRef 0) = Inr ()"
    by (simp add: argumentTypeNames_def d example_fields_def own_property_def)
  have n: "NumberToString example_runtime (Fin 0) = ''0''"
    "NumberToString example_runtime (Fin 4) = ''4''"
    by (simp_all add: example_runtime_def decimal.simps)
  show "frameSize_of example_runtime string_size_heap (JRef 0) = Inr (JStr ''004444'')"
    by (simp add: frameSize_of_def destructure_def callStackFrameSize_def d
        example_fields_def own_property_def js_add_def js_mul_def n)
qed
section \<open>Failures\<close>

lemma destructure_object:
  assumes "options \<noteq> JUndefined" "options \<noteq> JNull"
  shows "\<exists>b. destructure h options = Inr b \<and>
    getProp h options ''callArgs'' = Inr (opt_callArgs b)"
proof -
  from getProp_object [OF assms] obtain t where t: "getProp h options ''title'' = Inr t" by blast
  from getProp_object [OF assms] obtain r where r: "getProp h options ''returnValueSize'' = Inr r" by blast
  from getProp_object [OF assms] obtain c where c: "getProp h options ''returnValueOnCallStack'' = Inr c" by blast
  from getProp_object [OF assms] obtain v where v: "getProp h options ''callArgs'' = Inr v" by blast
  from getProp_object [OF assms] obtain l where l: "getProp h options ''linkRegister'' = Inr l" by blast
  from getProp_object [OF assms] obtain p where p: "getProp h options ''padding'' = Inr p" by blast
  from getProp_object [OF assms] obtain y where y: "getProp h options ''yMax'' = Inr y" by blast
  show ?thesis by (simp add: destructure_def t r c v l p y)
qed

lemma reduce_size_iterable:
  "list_all (\<lambda>e. e \<noteq> JUndefined \<and> e \<noteq> JNull) es \<Longrightarrow> \<exists>x. reduce_size rt h acc es = Inr x"
proof (induction es arbitrary: acc)
  case Nil
  show ?case by simp
next
  case (Cons e es)
  then obtain s where "getProp h e ''size'' = Inr s" using getProp_object [of e h "''size''"] by auto
  with Cons show ?case by simp
qed




lemma callStackFrameSize_iterable:
  assumes "array_elements h (opt_callArgs b) = Inr es"
    "list_all (\<lambda>e. e \<noteq> JUndefined \<and> e \<noteq> JNull) es"
  shows "\<exists>x. callStackFrameSize rt h b = Inr x"
proof -
  from reduce_size_iterable [OF assms(2)] obtain s where
    "reduce_size rt h (JNum (Fin 0)) es = Inr s" by blast
  with assms(1) show ?thesis by (simp add: callStackFrameSize_def Let_def)
qed



lemma createCallStackChart_invalid:
  assumes "validate argumentTypeNames (w_heap w) options = Inl e"
  shows "createCallStackChart rt w options = (w, Inl e)"
  using assms by (simp add: createCallStackChart_def Let_def)

lemma createCallStackChart2_invalid:
  assumes "validate argumentTypeNames2 (w_heap w) options = Inl e"
  shows "createCallStackChart2 rt w options = (w, Inl e)"
  using assms by (simp add: createCallStackChart2_def Let_def)



lemma map_callArgs2_iterable:
  "list_all (\<lambda>e. e \<noteq> JUndefined \<and> e \<noteq> JNull) es \<Longrightarrow> \<exists>x. map_callArgs2 rt h i es = Inr x"
proof (induction es arbitrary: i)
  case Nil
  show ?case by simp
next
  case (Cons e es)
  then have o: "e \<noteq> JUndefined" "e \<noteq> JNull" by simp_all
  from getProp_object [OF o] obtain n where n: "getProp h e ''name'' = Inr n" by blast
  from getProp_object [OF o] obtain s where s: "getProp h e ''size'' = Inr s" by blast
  from getProp_object [OF o] obtain c where c: "getProp h e ''color'' = Inr c" by blast
  from Cons obtain x where "map_callArgs2 rt h (Suc i) es = Inr x" by fastforce
  with n s c show ?case by simp
qed

lemma traces2_iterable:
  assumes "array_elements h (opt_callArgs b) = Inr es"
    "list_all (\<lambda>e. e \<noteq> JUndefined \<and> e \<noteq> JNull) es"
  shows "\<exists>x. traces2 rt h b = Inr x"
proof -
  from map_callArgs2_iterable [OF assms(2)] obtain a where "map_callArgs2 rt h 0 es = Inr a" by blast
  with assms(1) show ?thesis by (simp add: traces2_def)
qed

lemma createCallStackChart2_returns:
  assumes v: "validate argumentTypeNames2 (w_heap w) options = Inr ()"
    and n: "callArgs_iterable (w_heap w) options"
  shows "snd (createCallStackChart2 rt w options) = Inr ()"
proof -
  let ?h = "w_heap w"
  have "argumentTypeNames2 \<noteq> []" by (simp add: argumentTypeNames2_def)
  from validate_accepted_object [OF v this] have o: "options \<noteq> JUndefined" "options \<noteq> JNull"
    by simp_all
  from destructure_object [OF o] obtain b where b: "destructure ?h options = Inr b"
    and c: "getProp ?h options ''callArgs'' = Inr (opt_callArgs b)" by blast
  from n c obtain es where es: "array_elements ?h (opt_callArgs b) = Inr es"
    and it: "list_all (\<lambda>e. e \<noteq> JUndefined \<and> e \<noteq> JNull) es"
    by (auto simp: callArgs_iterable_def split: sum.splits)
  from callStackFrameSize_iterable [OF es it] obtain fs where
    fs: "callStackFrameSize rt ?h b = Inr fs" by blast
  obtain layoutRef h1 where a1: "alloc (layout2 rt ?h b fs) ?h = (layoutRef, h1)"
    by (cases "alloc (layout2 rt ?h b fs) ?h")
  from alloc_extends(1) [OF a1] obtain e1 where e1: "h1 = ?h @ e1" by blast
  from array_elements_append [OF es] e1 have "array_elements h1 (opt_callArgs b) = Inr es" by simp
  from traces2_iterable [OF this it] obtain data where tr: "traces2 rt h1 b = Inr data" by blast
  show ?thesis
    by (simp add: createCallStackChart2_def Let_def v b fs a1 tr split: prod.splits
        del: alloc.simps)
qed

text \<open>
  Claim C2, as amended. In each variant, for every options object in which some field of
  the variant's expected-type table has a \<open>typeof\<close> that differs from the table (the table
  of the first variant is \<open>id\<close>, \<open>title\<close>, \<open>returnValueSize\<close>,
  \<open>returnValueOnCallStack\<close>, \<open>callArgs\<close>, \<open>linkRegister\<close>, \<open>padding\<close>, \<open>yMax\<close>, that
  of the second variant is the same without \<open>id\<close>), \<open>createCallStackChart\<close> throws the
  error whose message names the first mismatched field of the table, and the world is as it
  was before the call: no object has been created, \<open>Plotly.newPlot\<close> has not been called,
  nothing has been appended to the document. In particular, when \<open>linkRegister\<close> is the
  first mismatched field, the message is \<open>Expected linkRegister to be of type boolean\<close>.
\<close>

theorem validation_error_names_first_mismatch:
  "(find (mismatch (w_heap w) options) argumentTypeNames = Some (arg, type) \<longrightarrow>
      createCallStackChart rt w options =
        (w, Inl (Error (''Expected '' @ arg @ '' to be of type '' @ type)))) \<and>
   (find (mismatch (w_heap w) options) argumentTypeNames2 = Some (arg, type) \<longrightarrow>
      createCallStackChart2 rt w options =
        (w, Inl (Error (''Expected '' @ arg @ '' to be of type '' @ type)))) \<and>
   (find (mismatch (w_heap w) options) argumentTypeNames = Some (''linkRegister'', ''boolean'') \<longrightarrow>
      createCallStackChart rt w options =
        (w, Inl (Error ''Expected linkRegister to be of type boolean''))) \<and>
   (find (mismatch (w_heap w) options) argumentTypeNames2 = Some (''linkRegister'', ''boolean'') \<longrightarrow>
      createCallStackChart2 rt w options =
        (w, Inl (Error ''Expected linkRegister to be of type boolean'')))"
proof (intro conjI impI)
  assume "find (mismatch (w_heap w) options) argumentTypeNames = Some (arg, type)"
  from createCallStackChart_invalid [OF validate_mismatch [OF this]]
  show "createCallStackChart rt w options =
        (w, Inl (Error (''Expected '' @ arg @ '' to be of type '' @ type)))" .
next
  assume "find (mismatch (w_heap w) options) argumentTypeNames2 = Some (arg, type)"
  from createCallStackChart2_invalid [OF validate_mismatch [OF this]]
  show "createCallStackChart2 rt w options =
        (w, Inl (Error (''Expected '' @ arg @ '' to be of type '' @ type)))" .
next
  assume "find (mismatch (w_heap w) options) argumentTypeNames = Some (''linkRegister'', ''boolean'')"
  from createCallStackChart_invalid [OF validate_mismatch [OF this], of rt]
  show "createCallStackChart rt w options =
        (w, Inl (Error ''Expected linkRegister to be of type boolean''))" by simp
next
  assume "find (mismatch (w_heap w) options) argumentTypeNames2 = Some (''linkRegister'', ''boolean'')"
  from createCallStackChart2_invalid [OF validate_mismatch [OF this], of rt]
  show "createCallStackChart2 rt w options =
        (w, Inl (Error ''Expected linkRegister to be of type boolean''))" by simp
qed

lemma string_linkRegister_first:
  "find (mismatch (heap_with string_linkRegister_fields) (JRef 0)) argumentTypeNames =
     Some (''linkRegister'', ''boolean'')"
  "find (mismatch (heap_with string_linkRegister_fields) (JRef 0)) argumentTypeNames2 =
     Some (''linkRegister'', ''boolean'')"
  by (simp_all add: argumentTypeNames_def argumentTypeNames2_def mismatch_def
      string_linkRegister_fields_def own_property_def)

text \<open>
  Claim C2, at the example with \<open>linkRegister: "yes"\<close>: both variants throw the error
  that names \<open>linkRegister\<close> and leave the world unchanged.
\<close>

theorem validation_error_names_first_mismatch_example:
  "find (mismatch (w_heap (world_with string_linkRegister_fields)) (JRef 0)) argumentTypeNames =
     Some (''linkRegister'', ''boolean'') \<and>
   createCallStackChart example_runtime (world_with string_linkRegister_fields) (JRef 0) =
     (world_with string_linkRegister_fields,
      Inl (Error ''Expected linkRegister to be of type boolean'')) \<and>
   find (mismatch (w_heap (world_with string_linkRegister_fields)) (JRef 0)) argumentTypeNames2 =
     Some (''linkRegister'', ''boolean'') \<and>
   createCallStackChart2 example_runtime (world_with string_linkRegister_fields) (JRef 0) =
     (world_with string_linkRegister_fields,
      Inl (Error ''Expected linkRegister to be of type boolean''))"
  using validation_error_names_first_mismatch
    [of "world_with string_linkRegister_fields" "JRef 0" "''linkRegister''" "''boolean''"
        example_runtime]
    string_linkRegister_first
  by simp

lemma number_id_accepted2:
  "validate argumentTypeNames2 (heap_with number_id_fields) (JRef 0) = Inr ()"
  by (simp add: argumentTypeNames2_def number_id_fields_def own_property_def)

lemma number_id_iterable: "callArgs_iterable (heap_with number_id_fields) (JRef 0)"
  by (simp add: callArgs_iterable_def number_id_fields_def own_property_def)

text \<open>
  Claim C2 as it is stated, with \<open>id: string\<close> in the table, fails for the second
  variant, which reads no \<open>id\<close>: with \<open>id: 7\<close> and every other field well typed the
  field \<open>id\<close> differs from the table and the second variant returns normally.
\<close>

theorem validation_error_counterexample:
  "mismatch (w_heap (world_with number_id_fields)) (JRef 0) (''id'', ''string'') \<and>
   snd (createCallStackChart2 example_runtime (world_with number_id_fields) (JRef 0)) = Inr ()"
proof
  show "mismatch (w_heap (world_with number_id_fields)) (JRef 0) (''id'', ''string'')"
    by (simp add: mismatch_def number_id_fields_def own_property_def)
  show "snd (createCallStackChart2 example_runtime (world_with number_id_fields) (JRef 0)) = Inr ()"
    by (rule createCallStackChart2_returns) (simp_all add: number_id_accepted2 number_id_iterable)
qed

text \<open>
  Claim C9. The table of the first variant lists the fields in the order \<open>id\<close>,
  \<open>title\<close>, \<open>returnValueSize\<close>, \<open>returnValueOnCallStack\<close>, \<open>callArgs\<close>,
  \<open>linkRegister\<close>, \<open>padding\<close>, \<open>yMax\<close>; the validation of an options object succeeds
  when no field of the table is mismatched and otherwise throws the error that names the
  first mismatched field in this order, whatever the later fields are; and the result of
  the validation is the same for two options objects that agree on the fields of the table,
  whatever other properties they have.
\<close>

theorem validation_order:
  "map fst argumentTypeNames =
     [''id'', ''title'', ''returnValueSize'', ''returnValueOnCallStack'', ''callArgs'',
      ''linkRegister'', ''padding'', ''yMax''] \<and>
   (options \<noteq> JUndefined \<and> options \<noteq> JNull \<longrightarrow>
      validate argumentTypeNames h options =
        (case find (mismatch h options) argumentTypeNames of
           None \<Rightarrow> Inr ()
         | Some (arg, type) \<Rightarrow> Inl (Error (''Expected '' @ arg @ '' to be of type '' @ type)))) \<and>
   ((\<forall>k \<in> set (map fst argumentTypeNames). getProp h options k = getProp h' options' k) \<longrightarrow>
      validate argumentTypeNames h options = validate argumentTypeNames h' options')"
proof (intro conjI impI)
  show "map fst argumentTypeNames =
     [''id'', ''title'', ''returnValueSize'', ''returnValueOnCallStack'', ''callArgs'',
      ''linkRegister'', ''padding'', ''yMax'']"
    by (simp add: argumentTypeNames_def)
next
  assume "options \<noteq> JUndefined \<and> options \<noteq> JNull"
  then show "validate argumentTypeNames h options =
        (case find (mismatch h options) argumentTypeNames of
           None \<Rightarrow> Inr ()
         | Some (arg, type) \<Rightarrow> Inl (Error (''Expected '' @ arg @ '' to be of type '' @ type)))"
    by (intro validate_find) simp_all
next
  assume "\<forall>k \<in> set (map fst argumentTypeNames). getProp h options k = getProp h' options' k"
  then show "validate argumentTypeNames h options = validate argumentTypeNames h' options'"
    by (rule validate_same_fields)
qed

text \<open>
  Claim C9, at examples: with \<open>title: 5\<close> and \<open>linkRegister: "yes"\<close> the error names
  \<open>title\<close>; the example options and the example options with a further property
  \<open>theme\<close> agree on the fields of the table, and both are accepted.
\<close>

theorem validation_order_example:
  "validate argumentTypeNames (heap_with two_mistyped_fields) (JRef 0) =
     Inl (Error ''Expected title to be of type string'') \<and>
   list_all
     (\<lambda>k. getProp (heap_with example_fields) (JRef 0) k = getProp (heap_with extra_fields) (JRef 0) k)
     (map fst argumentTypeNames) \<and>
   validate argumentTypeNames (heap_with extra_fields) (JRef 0) = Inr ()"
proof -
  have o: "JRef 0 \<noteq> JUndefined \<and> JRef 0 \<noteq> JNull" by simp
  have f: "find (mismatch (heap_with two_mistyped_fields) (JRef 0)) argumentTypeNames =
      Some (''title'', ''string'')"
    by (simp add: argumentTypeNames_def mismatch_def two_mistyped_fields_def own_property_def)
  have s: "\<forall>k \<in> set (map fst argumentTypeNames).
      getProp (heap_with example_fields) (JRef 0) k = getProp (heap_with extra_fields) (JRef 0) k"
    by (simp add: argumentTypeNames_def extra_fields_def example_fields_def own_property_def)
  note t = validation_order [where options = "JRef 0" and h = "heap_with two_mistyped_fields"]
  note u = validation_order [where h = "heap_with example_fields" and h' = "heap_with extra_fields"
      and options = "JRef 0" and options' = "JRef 0"]
  from t o f have "validate argumentTypeNames (heap_with two_mistyped_fields) (JRef 0) =
     Inl (Error ''Expected title to be of type string'')" by simp
  moreover have "validate argumentTypeNames (heap_with example_fields) (JRef 0) =
      validate argumentTypeNames (heap_with extra_fields) (JRef 0)"
    using u s by blast
  with example_accepted
  have "validate argumentTypeNames (heap_with extra_fields) (JRef 0) = Inr ()" by simp
  ultimately show ?thesis using s by (simp add: list_all_iff)
qed






section \<open>What well-typed options give\<close>

lemma well_typed2_destructure:
  assumes "well_typed2 h options cfg"
  shows "\<exists>v es. destructure h options = Inr (typed_bindings cfg v) \<and>
      array_elements h v = Inr es \<and> list_all2 (is_callArg h) es (cfg_callArgs cfg)"
  using assms
  by (auto simp: well_typed2_def destructure_def typed_bindings_def split: sum.splits)

lemma validate2_well_typed:
  "well_typed2 h options cfg \<Longrightarrow> validate argumentTypeNames2 h options = Inr ()"
  by (auto simp: well_typed2_def argumentTypeNames2_def split: sum.splits jsval.splits
      elim!: array_elements.elims)

lemma validate_well_typed:
  "well_typed h options cfg \<Longrightarrow> validate argumentTypeNames h options = Inr ()"
  by (auto simp: well_typed_def well_typed2_def argumentTypeNames_def
      split: sum.splits jsval.splits elim!: array_elements.elims)

lemma reduce_size_well_typed:
  "list_all2 (is_callArg h) es cs \<Longrightarrow>
   reduce_size rt h (JNum acc) es = Inr (JNum (foldl num_add acc (map arg_size cs)))"
proof (induction es cs arbitrary: acc rule: list_all2_induct)
  case Nil
  then show ?case by simp
next
  case (Cons e es c cs)
  then show ?case by (simp add: is_callArg_def)
qed

lemma frameSize_well_typed:
  assumes "array_elements h v = Inr es" "list_all2 (is_callArg h) es (cfg_callArgs cfg)"
  shows "\<exists>n. callStackFrameSize rt h (typed_bindings cfg v) = Inr (JNum n)"
  using assms
  by (simp add: callStackFrameSize_def typed_bindings_def reduce_size_well_typed)

lemma map_callArgs_typed:
  "list_all2 (is_callArg h) es cs \<Longrightarrow>
   \<exists>args. map_callArgs rt h i es = Inr args \<and> primitive_leaves_list args \<and>
     map segment_of args = map (argument_segment rt (JStr [])) (enumerate i cs)"
proof (induction es cs arbitrary: i rule: list_all2_induct)
  case Nil
  then show ?case by simp
next
  case (Cons e es c cs)
  from Cons.IH [of "Suc i"] obtain args where
    a: "map_callArgs rt h (Suc i) es = Inr args" "primitive_leaves_list args"
    "map segment_of args = map (argument_segment rt (JStr [])) (enumerate (Suc i) cs)"
    by blast
  from Cons.hyps(1) a show ?case
    by (simp add: is_callArg_def primitive_leaves_barStack segment_of_barStack argument_segment_def
        during_def)
qed

lemma map_callArgs2_typed:
  "list_all2 (is_callArg h) es cs \<Longrightarrow>
   \<exists>args. map_callArgs2 rt h i es = Inr args \<and> primitive_leaves_list args \<and>
     map segment_of args = map (argument_segment rt JUndefined) (enumerate i cs)"
proof (induction es cs arbitrary: i rule: list_all2_induct)
  case Nil
  then show ?case by simp
next
  case (Cons e es c cs)
  from Cons.IH [of "Suc i"] obtain args where
    a: "map_callArgs2 rt h (Suc i) es = Inr args" "primitive_leaves_list args"
    "map segment_of args = map (argument_segment rt JUndefined) (enumerate (Suc i) cs)"
    by blast
  from Cons.hyps(1) a show ?case
    by (simp add: is_callArg_def primitive_leaves_barStack2 segment_of_barStack2 argument_segment_def
        during_def)
qed

lemma traces_typed:
  assumes "array_elements h v = Inr es" "list_all2 (is_callArg h) es (cfg_callArgs cfg)"
  shows "\<exists>data. traces rt h (typed_bindings cfg v) = Inr data \<and> primitive_leaves_list data \<and>
     map segment_of data = chart_segments rt cfg"
proof -
  from map_callArgs_typed [OF assms(2), of rt 0] obtain args where
    a: "map_callArgs rt h 0 es = Inr args" "primitive_leaves_list args"
    "map segment_of args = map (argument_segment rt (JStr [])) (enumerate 0 (cfg_callArgs cfg))"
    by blast
  from assms(1) a show ?thesis
    by (simp add: traces_def typed_bindings_def chart_segments_def primitive_leaves_list_append
        primitive_leaves_barStack segment_of_barStack during_def RETURN_VARIABLE_def)
qed

lemma traces2_typed:
  assumes "array_elements h v = Inr es" "list_all2 (is_callArg h) es (cfg_callArgs cfg)"
  shows "\<exists>data. traces2 rt h (typed_bindings cfg v) = Inr data \<and> primitive_leaves_list data \<and>
     map segment_of data = chart_segments2 rt cfg"
proof -
  from map_callArgs2_typed [OF assms(2), of rt 0] obtain args where
    a: "map_callArgs2 rt h 0 es = Inr args" "primitive_leaves_list args"
    "map segment_of args = map (argument_segment rt JUndefined) (enumerate 0 (cfg_callArgs cfg))"
    by blast
  from assms(1) a show ?thesis
    by (simp add: traces2_def typed_bindings_def chart_segments2_def primitive_leaves_list_append
        primitive_leaves_barStack2 segment_of_barStack2 during_def RETURN_VARIABLE_def)
qed

lemma createCallStackChart_typed:
  assumes wt: "well_typed (w_heap w) options cfg"
  shows "\<exists>lay data. emitted w (createCallStackChart rt w options) (JStr (cfg_id cfg)) lay data \<and>
     map segment_of data = chart_segments rt cfg"
proof -
  let ?h = "w_heap w"
  let ?n = "length ?h"
  from wt have wt2: "well_typed2 ?h options cfg"
    and i: "getProp ?h options ''id'' = Inr (JStr (cfg_id cfg))"
    by (simp_all add: well_typed_def)
  from well_typed2_destructure [OF wt2] obtain v es where
    d: "destructure ?h options = Inr (typed_bindings cfg v)"
    and es: "array_elements ?h v = Inr es" "list_all2 (is_callArg ?h) es (cfg_callArgs cfg)"
    by blast
  from frameSize_well_typed [OF es] obtain m where
    fs: "callStackFrameSize rt ?h (typed_bindings cfg v) = Inr (JNum m)" by blast
  let ?lay = "layout rt ?h (typed_bindings cfg v) (JNum m)"
  obtain layoutRef h1 where a1: "alloc ?lay ?h = (layoutRef, h1)" by (cases "alloc ?lay ?h")
  from alloc_extends(1) [OF a1] obtain e1 where e1: "h1 = ?h @ e1" by blast
  have ae: "array_elements h1 v = Inr es"
    unfolding e1 by (rule array_elements_append [OF es(1)])
  have la: "list_all2 (is_callArg h1) es (cfg_callArgs cfg)"
    unfolding e1 by (rule list_all2_is_callArg_append [OF es(2)])
  from traces_typed [where rt = rt, OF ae la]
  obtain data where tr: "traces rt h1 (typed_bindings cfg v) = Inr data"
    and ol: "primitive_leaves_list data"
    and sg: "map segment_of data = chart_segments rt cfg"
    by blast
  obtain dataRef h2 where a2: "alloc (ArrayLit data) h1 = (dataRef, h2)"
    by (cases "alloc (ArrayLit data) h1")
  from alloc_extends(1) [OF a2] obtain e2 where e2: "h2 = h1 @ e2" by blast
  obtain configRef h3 where a3: "alloc config h2 = (configRef, h3)" by (cases "alloc config h2")
  from alloc_extends(1) [OF a3] obtain e3 where e3: "h3 = h2 @ e3" by blast
  have l1: "?n \<le> length h1" and l2: "?n \<le> length h2" using e1 e2 by simp_all
  have r1: "represents ?n h1 layoutRef ?lay"
    by (rule alloc_represents(1) [OF a1]) (simp_all add: primitive_leaves_layout)
  have r2: "represents ?n h2 dataRef (ArrayLit data)"
    by (rule alloc_represents(1) [OF a2]) (simp_all add: ol l1)
  have r3: "represents ?n h3 configRef config"
    by (rule alloc_represents(1) [OF a3]) (simp_all add: primitive_leaves_config l2)
  from r1 have r1': "represents ?n h3 layoutRef ?lay"
    unfolding e3 e2 append_assoc by (rule represents_append)
  from r2 have r2': "represents ?n h3 dataRef (ArrayLit data)"
    unfolding e3 by (rule represents_append)
  have v: "validate argumentTypeNames ?h options = Inr ()"
    by (rule validate_well_typed [OF wt])
  have "emitted w (createCallStackChart rt w options) (JStr (cfg_id cfg)) ?lay data"
    using r1' r2' r3
    by (simp add: createCallStackChart_def Let_def v i d fs a1 tr a2 a3 emitted_def
        del: alloc.simps represents.simps)
  with sg show ?thesis by blast
qed

lemma createCallStackChart2_typed:
  assumes wt2: "well_typed2 (w_heap w) options cfg"
  shows "\<exists>lay data.
     emitted w (createCallStackChart2 rt w options) (JStr ''call-stack-chart'') lay data \<and>
     map segment_of data = chart_segments2 rt cfg"
proof -
  let ?h = "w_heap w"
  let ?n = "length ?h"
  from well_typed2_destructure [OF wt2] obtain v es where
    d: "destructure ?h options = Inr (typed_bindings cfg v)"
    and es: "array_elements ?h v = Inr es" "list_all2 (is_callArg ?h) es (cfg_callArgs cfg)"
    by blast
  from frameSize_well_typed [OF es] obtain m where
    fs: "callStackFrameSize rt ?h (typed_bindings cfg v) = Inr (JNum m)" by blast
  let ?lay = "layout2 rt ?h (typed_bindings cfg v) (JNum m)"
  obtain layoutRef h1 where a1: "alloc ?lay ?h = (layoutRef, h1)" by (cases "alloc ?lay ?h")
  from alloc_extends(1) [OF a1] obtain e1 where e1: "h1 = ?h @ e1" by blast
  have ae: "array_elements h1 v = Inr es"
    unfolding e1 by (rule array_elements_append [OF es(1)])
  have la: "list_all2 (is_callArg h1) es (cfg_callArgs cfg)"
    unfolding e1 by (rule list_all2_is_callArg_append [OF es(2)])
  from traces2_typed [where rt = rt, OF ae la]
  obtain data where tr: "traces2 rt h1 (typed_bindings cfg v) = Inr data"
    and ol: "primitive_leaves_list data"
    and sg: "map segment_of data = chart_segments2 rt cfg"
    by blast
  obtain dataRef h2 where a2: "alloc (ArrayLit data) h1 = (dataRef, h2)"
    by (cases "alloc (ArrayLit data) h1")
  from alloc_extends(1) [OF a2] obtain e2 where e2: "h2 = h1 @ e2" by blast
  obtain configRef h3 where a3: "alloc config h2 = (configRef, h3)" by (cases "alloc config h2")
  from alloc_extends(1) [OF a3] obtain e3 where e3: "h3 = h2 @ e3" by blast
  have l1: "?n \<le> length h1" and l2: "?n \<le> length h2" using e1 e2 by simp_all
  have r1: "represents ?n h1 layoutRef ?lay"
    by (rule alloc_represents(1) [OF a1]) (simp_all add: primitive_leaves_layout2)
  have r2: "represents ?n h2 dataRef (ArrayLit data)"
    by (rule alloc_represents(1) [OF a2]) (simp_all add: ol l1)
  have r3: "represents ?n h3 configRef config"
    by (rule alloc_represents(1) [OF a3]) (simp_all add: primitive_leaves_config l2)
  from r1 have r1': "represents ?n h3 layoutRef ?lay"
    unfolding e3 e2 append_assoc by (rule represents_append)
  from r2 have r2': "represents ?n h3 dataRef (ArrayLit data)"
    unfolding e3 by (rule represents_append)
  have v: "validate argumentTypeNames2 ?h options = Inr ()"
    by (rule validate2_well_typed [OF wt2])
  have "emitted w (createCallStackChart2 rt w options) (JStr ''call-stack-chart'') ?lay data"
    using r1' r2' r3
    by (simp add: createCallStackChart2_def Let_def v d fs a1 tr a2 a3 emitted_def
        del: alloc.simps represents.simps)
  with sg show ?thesis by blast
qed

section \<open>The segments of the chart\<close>

lemma seg_x_argument_segment [simp]: "seg_x (argument_segment rt shape ic) = JStr DURING_CALL"
  by (simp add: argument_segment_def during_def)

lemma seg_x_during [simp]: "seg_x (during label n c shape) = JStr DURING_CALL"
  by (simp add: during_def)

lemma columns_differ [simp]:
  "BEFORE_CALL \<noteq> DURING_CALL" "AFTER_CALL \<noteq> DURING_CALL"
  by (simp_all add: BEFORE_CALL_def DURING_CALL_def AFTER_CALL_def)

lemma filter_map_all: "(\<And>x. P (f x)) \<Longrightarrow> filter P (map f xs) = map f xs"
  by (induction xs) simp_all

lemma filter_map_none: "(\<And>x. \<not> P (f x)) \<Longrightarrow> filter P (map f xs) = []"
  by (induction xs) simp_all

lemma during_chart_segments:
  "filter (\<lambda>s. seg_x s = JStr DURING_CALL) (chart_segments rt cfg) =
     [if cfg_returnValueOnCallStack cfg
      then during ''Return Value'' (cfg_returnValueSize cfg) ''lightgrey'' (JStr [])
      else during ''Return Value'' (cfg_returnValueSize cfg) ''lightblue'' (JStr ''/'')]
     @ (if cfg_linkRegister cfg
        then [during ''Link Register'' (Fin 4) ''lightgreen'' (JStr [])]
        else [])
     @ [during ''Frame Pointer'' (Fin 4) ''lightgreen'' (JStr [])]
     @ map (argument_segment rt (JStr [])) (enumerate 0 (cfg_callArgs cfg))
     @ (if cfg_returnValueOnCallStack cfg
        then [during ''Return Value'' (cfg_returnValueSize cfg) ''lightblue'' (JStr ''/'')]
        else [])
     @ [during ''Padding'' (cfg_padding cfg) ''white'' (JStr [])]"
  by (simp add: chart_segments_def filter_map_all)

lemma during_chart_segments2:
  "filter (\<lambda>s. seg_x s = JStr DURING_CALL) (chart_segments2 rt cfg) =
     [during ''Return Value'' (cfg_returnValueSize cfg)
        (if cfg_returnValueOnCallStack cfg then ''lightgrey'' else ''lightblue'') JUndefined]
     @ (if cfg_linkRegister cfg
        then [during ''Link Register'' (Fin 4) ''lightgreen'' JUndefined]
        else [])
     @ [during ''Frame Pointer'' (Fin 4) ''lightgreen'' JUndefined]
     @ map (argument_segment rt JUndefined) (enumerate 0 (cfg_callArgs cfg))
     @ (if cfg_returnValueOnCallStack cfg
        then [during ''Return Value'' (cfg_returnValueSize cfg) ''lightblue'' JUndefined]
        else [])
     @ [during ''Padding'' (cfg_padding cfg) ''white'' JUndefined]"
  by (simp add: chart_segments2_def filter_map_all)

text \<open>
  Claim C4. For every well-typed options object, each variant returns and hands to
  \<open>Plotly.newPlot\<close> a data array whose segments of the During Call column are, in order
  from the bottom: the return-value segment (light grey when the return value is on the call
  stack; light blue, and hatched in the first variant, when it is in a register), then the
  Link Register segment of size 4 only if \<open>linkRegister\<close> is true, then the Frame Pointer
  segment of size 4, then one segment per element of \<open>callArgs\<close> in input order, then a
  second return-value segment (light blue, hatched in the first variant) only if the return
  value is on the call stack, then the Padding segment.
\<close>

theorem during_call_order:
  "(well_typed (w_heap w) options cfg \<longrightarrow>
      (\<exists>lay data.
         emitted w (createCallStackChart rt w options) (JStr (cfg_id cfg)) lay data \<and>
         during_call data =
           [if cfg_returnValueOnCallStack cfg
            then during ''Return Value'' (cfg_returnValueSize cfg) ''lightgrey'' (JStr [])
            else during ''Return Value'' (cfg_returnValueSize cfg) ''lightblue'' (JStr ''/'')]
           @ (if cfg_linkRegister cfg
              then [during ''Link Register'' (Fin 4) ''lightgreen'' (JStr [])]
              else [])
           @ [during ''Frame Pointer'' (Fin 4) ''lightgreen'' (JStr [])]
           @ map (argument_segment rt (JStr [])) (enumerate 0 (cfg_callArgs cfg))
           @ (if cfg_returnValueOnCallStack cfg
              then [during ''Return Value'' (cfg_returnValueSize cfg) ''lightblue'' (JStr ''/'')]
              else [])
           @ [during ''Padding'' (cfg_padding cfg) ''white'' (JStr [])])) \<and>
   (well_typed2 (w_heap w) options cfg \<longrightarrow>
      (\<exists>lay data.
         emitted w (createCallStackChart2 rt w options) (JStr ''call-stack-chart'') lay data \<and>
         during_call data =
           [during ''Return Value'' (cfg_returnValueSize cfg)
              (if cfg_returnValueOnCallStack cfg then ''lightgrey'' else ''lightblue'') JUndefined]
           @ (if cfg_linkRegister cfg
              then [during ''Link Register'' (Fin 4) ''lightgreen'' JUndefined]
              else [])
           @ [during ''Frame Pointer'' (Fin 4) ''lightgreen'' JUndefined]
           @ map (argument_segment rt JUndefined) (enumerate 0 (cfg_callArgs cfg))
           @ (if cfg_returnValueOnCallStack cfg
              then [during ''Return Value'' (cfg_returnValueSize cfg) ''lightblue'' JUndefined]
              else [])
           @ [during ''Padding'' (cfg_padding cfg) ''white'' JUndefined]))"
proof (intro conjI impI)
  assume "well_typed (w_heap w) options cfg"
  from createCallStackChart_typed [OF this, of rt] obtain lay data where
    e: "emitted w (createCallStackChart rt w options) (JStr (cfg_id cfg)) lay data"
    and s: "map segment_of data = chart_segments rt cfg" by blast
  from s have "during_call data = filter (\<lambda>s. seg_x s = JStr DURING_CALL) (chart_segments rt cfg)"
    by (simp add: during_call_def)
  with e show "\<exists>lay data.
         emitted w (createCallStackChart rt w options) (JStr (cfg_id cfg)) lay data \<and>
         during_call data =
           [if cfg_returnValueOnCallStack cfg
            then during ''Return Value'' (cfg_returnValueSize cfg) ''lightgrey'' (JStr [])
            else during ''Return Value'' (cfg_returnValueSize cfg) ''lightblue'' (JStr ''/'')]
           @ (if cfg_linkRegister cfg
              then [during ''Link Register'' (Fin 4) ''lightgreen'' (JStr [])]
              else [])
           @ [during ''Frame Pointer'' (Fin 4) ''lightgreen'' (JStr [])]
           @ map (argument_segment rt (JStr [])) (enumerate 0 (cfg_callArgs cfg))
           @ (if cfg_returnValueOnCallStack cfg
              then [during ''Return Value'' (cfg_returnValueSize cfg) ''lightblue'' (JStr ''/'')]
              else [])
           @ [during ''Padding'' (cfg_padding cfg) ''white'' (JStr [])]"
    unfolding during_chart_segments by blast
next
  assume "well_typed2 (w_heap w) options cfg"
  from createCallStackChart2_typed [OF this, of rt] obtain lay data where
    e: "emitted w (createCallStackChart2 rt w options) (JStr ''call-stack-chart'') lay data"
    and s: "map segment_of data = chart_segments2 rt cfg" by blast
  from s have "during_call data = filter (\<lambda>s. seg_x s = JStr DURING_CALL) (chart_segments2 rt cfg)"
    by (simp add: during_call_def)
  with e show "\<exists>lay data.
         emitted w (createCallStackChart2 rt w options) (JStr ''call-stack-chart'') lay data \<and>
         during_call data =
           [during ''Return Value'' (cfg_returnValueSize cfg)
              (if cfg_returnValueOnCallStack cfg then ''lightgrey'' else ''lightblue'') JUndefined]
           @ (if cfg_linkRegister cfg
              then [during ''Link Register'' (Fin 4) ''lightgreen'' JUndefined]
              else [])
           @ [during ''Frame Pointer'' (Fin 4) ''lightgreen'' JUndefined]
           @ map (argument_segment rt JUndefined) (enumerate 0 (cfg_callArgs cfg))
           @ (if cfg_returnValueOnCallStack cfg
              then [during ''Return Value'' (cfg_returnValueSize cfg) ''lightblue'' JUndefined]
              else [])
           @ [during ''Padding'' (cfg_padding cfg) ''white'' JUndefined]"
    unfolding during_chart_segments2 by blast
qed

lemma example_well_typed: "well_typed (heap_with example_fields) (JRef 0) example_cfg"
  by (simp add: well_typed_def well_typed2_def is_callArg_def example_fields_def example_cfg_def
      own_property_def)

lemma example_well_typed2: "well_typed2 (heap_with example_fields) (JRef 0) example_cfg"
  using example_well_typed by (simp add: well_typed_def)

lemma example_numbers:
  "NumberToString example_runtime (Fin (of_nat 0)) = ''0''"
  by (simp add: example_runtime_def decimal.simps)

lemma example_argument_segments:
  "map (argument_segment example_runtime shape) (enumerate 0 (cfg_callArgs example_cfg)) =
     [during ''Argument 0 (x)'' (Fin 4) ''red'' shape]"
  by (simp add: example_cfg_def argument_segment_def example_numbers [simplified])

text \<open>
  Claim C4, at the example of the specification: the During Call column is the return
  value in register style, the link register (4), the frame pointer (4), the argument
  \<open>x\<close> (4) and the padding (4).
\<close>

theorem during_call_order_example:
  "well_typed (w_heap (world_with example_fields)) (JRef 0) example_cfg \<and>
   (\<exists>lay data.
      emitted (world_with example_fields)
        (createCallStackChart example_runtime (world_with example_fields) (JRef 0))
        (JStr ''chart'') lay data \<and>
      during_call data =
        [during ''Return Value'' (Fin 4) ''lightblue'' (JStr ''/''),
         during ''Link Register'' (Fin 4) ''lightgreen'' (JStr []),
         during ''Frame Pointer'' (Fin 4) ''lightgreen'' (JStr []),
         during ''Argument 0 (x)'' (Fin 4) ''red'' (JStr []),
         during ''Padding'' (Fin 4) ''white'' (JStr [])]) \<and>
   well_typed2 (w_heap (world_with example_fields)) (JRef 0) example_cfg \<and>
   (\<exists>lay data.
      emitted (world_with example_fields)
        (createCallStackChart2 example_runtime (world_with example_fields) (JRef 0))
        (JStr ''call-stack-chart'') lay data \<and>
      during_call data =
        [during ''Return Value'' (Fin 4) ''lightblue'' JUndefined,
         during ''Link Register'' (Fin 4) ''lightgreen'' JUndefined,
         during ''Frame Pointer'' (Fin 4) ''lightgreen'' JUndefined,
         during ''Argument 0 (x)'' (Fin 4) ''red'' JUndefined,
         during ''Padding'' (Fin 4) ''white'' JUndefined])"
proof -
  note t = during_call_order [of "world_with example_fields" "JRef 0" example_cfg example_runtime]
  have c: "cfg_id example_cfg = ''chart''" "cfg_returnValueSize example_cfg = Fin 4"
    "\<not> cfg_returnValueOnCallStack example_cfg" "cfg_linkRegister example_cfg"
    "cfg_padding example_cfg = Fin 4"
    by (simp_all add: example_cfg_def)
  from t example_well_typed example_well_typed2 show ?thesis
    by (simp add: c example_argument_segments)
qed

lemma seg_text_during [simp]: "seg_text (during label n c shape) = JStr label"
  by (simp add: during_def)

lemma seg_text_argument_segment:
  "seg_text (argument_segment rt shape ic) =
     JStr (''Argument '' @ NumberToString rt (Fin (of_nat (fst ic))) @ '' ('' @ arg_name (snd ic) @ '')'')"
  by (simp add: argument_segment_def)

lemma return_value_chart_segments:
  "filter (\<lambda>s. seg_text s = JStr ''Return Value'')
     (filter (\<lambda>s. seg_x s = JStr DURING_CALL) (chart_segments rt cfg)) =
     (if cfg_returnValueOnCallStack cfg
      then [during ''Return Value'' (cfg_returnValueSize cfg) ''lightgrey'' (JStr []),
            during ''Return Value'' (cfg_returnValueSize cfg) ''lightblue'' (JStr ''/'')]
      else [during ''Return Value'' (cfg_returnValueSize cfg) ''lightblue'' (JStr ''/'')])"
  by (simp add: during_chart_segments filter_map_none seg_text_argument_segment)

lemma return_value_chart_segments2:
  "filter (\<lambda>s. seg_text s = JStr ''Return Value'')
     (filter (\<lambda>s. seg_x s = JStr DURING_CALL) (chart_segments2 rt cfg)) =
     (if cfg_returnValueOnCallStack cfg
      then [during ''Return Value'' (cfg_returnValueSize cfg) ''lightgrey'' JUndefined,
            during ''Return Value'' (cfg_returnValueSize cfg) ''lightblue'' JUndefined]
      else [during ''Return Value'' (cfg_returnValueSize cfg) ''lightblue'' JUndefined])"
  by (simp add: during_chart_segments2 filter_map_none seg_text_argument_segment)

text \<open>
  Claim C5. For every well-typed options object with \<open>returnValueOnCallStack = false\<close>
  the During Call column has exactly one segment with the text \<open>Return Value\<close>, in the
  register style (light blue, hatched in the first variant), and no second one; with
  \<open>returnValueOnCallStack = true\<close> it has exactly two, the initial one (light grey) and
  the second one for the return value in the frame (light blue, hatched in the first
  variant).
\<close>

theorem return_value_segments:
  "(well_typed (w_heap w) options cfg \<longrightarrow>
      (\<exists>lay data.
         emitted w (createCallStackChart rt w options) (JStr (cfg_id cfg)) lay data \<and>
         filter (\<lambda>s. seg_text s = JStr ''Return Value'') (during_call data) =
           (if cfg_returnValueOnCallStack cfg
            then [during ''Return Value'' (cfg_returnValueSize cfg) ''lightgrey'' (JStr []),
                  during ''Return Value'' (cfg_returnValueSize cfg) ''lightblue'' (JStr ''/'')]
            else [during ''Return Value'' (cfg_returnValueSize cfg) ''lightblue'' (JStr ''/'')]))) \<and>
   (well_typed2 (w_heap w) options cfg \<longrightarrow>
      (\<exists>lay data.
         emitted w (createCallStackChart2 rt w options) (JStr ''call-stack-chart'') lay data \<and>
         filter (\<lambda>s. seg_text s = JStr ''Return Value'') (during_call data) =
           (if cfg_returnValueOnCallStack cfg
            then [during ''Return Value'' (cfg_returnValueSize cfg) ''lightgrey'' JUndefined,
                  during ''Return Value'' (cfg_returnValueSize cfg) ''lightblue'' JUndefined]
            else [during ''Return Value'' (cfg_returnValueSize cfg) ''lightblue'' JUndefined])))"
proof (intro conjI impI)
  assume "well_typed (w_heap w) options cfg"
  from createCallStackChart_typed [OF this, of rt] obtain lay data where
    e: "emitted w (createCallStackChart rt w options) (JStr (cfg_id cfg)) lay data"
    and s: "map segment_of data = chart_segments rt cfg" by blast
  from s have "filter (\<lambda>s. seg_text s = JStr ''Return Value'') (during_call data) =
      filter (\<lambda>s. seg_text s = JStr ''Return Value'')
        (filter (\<lambda>s. seg_x s = JStr DURING_CALL) (chart_segments rt cfg))"
    by (simp add: during_call_def)
  with e show "\<exists>lay data.
         emitted w (createCallStackChart rt w options) (JStr (cfg_id cfg)) lay data \<and>
         filter (\<lambda>s. seg_text s = JStr ''Return Value'') (during_call data) =
           (if cfg_returnValueOnCallStack cfg
            then [during ''Return Value'' (cfg_returnValueSize cfg) ''lightgrey'' (JStr []),
                  during ''Return Value'' (cfg_returnValueSize cfg) ''lightblue'' (JStr ''/'')]
            else [during ''Return Value'' (cfg_returnValueSize cfg) ''lightblue'' (JStr ''/'')])"
    unfolding return_value_chart_segments by blast
next
  assume "well_typed2 (w_heap w) options cfg"
  from createCallStackChart2_typed [OF this, of rt] obtain lay data where
    e: "emitted w (createCallStackChart2 rt w options) (JStr ''call-stack-chart'') lay data"
    and s: "map segment_of data = chart_segments2 rt cfg" by blast
  from s have "filter (\<lambda>s. seg_text s = JStr ''Return Value'') (during_call data) =
      filter (\<lambda>s. seg_text s = JStr ''Return Value'')
        (filter (\<lambda>s. seg_x s = JStr DURING_CALL) (chart_segments2 rt cfg))"
    by (simp add: during_call_def)
  with e show "\<exists>lay data.
         emitted w (createCallStackChart2 rt w options) (JStr ''call-stack-chart'') lay data \<and>
         filter (\<lambda>s. seg_text s = JStr ''Return Value'') (during_call data) =
           (if cfg_returnValueOnCallStack cfg
            then [during ''Return Value'' (cfg_returnValueSize cfg) ''lightgrey'' JUndefined,
                  during ''Return Value'' (cfg_returnValueSize cfg) ''lightblue'' JUndefined]
            else [during ''Return Value'' (cfg_returnValueSize cfg) ''lightblue'' JUndefined])"
    unfolding return_value_chart_segments2 by blast
qed

lemma on_stack_well_typed: "well_typed (heap_with on_stack_fields) (JRef 0) on_stack_cfg"
  by (simp add: well_typed_def well_typed2_def is_callArg_def on_stack_fields_def on_stack_cfg_def
      example_cfg_def own_property_def)

lemma on_stack_well_typed2: "well_typed2 (heap_with on_stack_fields) (JRef 0) on_stack_cfg"
  using on_stack_well_typed by (simp add: well_typed_def)

text \<open>
  Claim C5, at the example and at the example with \<open>returnValueOnCallStack = true\<close>.
\<close>

theorem return_value_segments_example:
  "well_typed (w_heap (world_with example_fields)) (JRef 0) example_cfg \<and>
   (\<exists>lay data.
      emitted (world_with example_fields)
        (createCallStackChart example_runtime (world_with example_fields) (JRef 0))
        (JStr ''chart'') lay data \<and>
      filter (\<lambda>s. seg_text s = JStr ''Return Value'') (during_call data) =
        [during ''Return Value'' (Fin 4) ''lightblue'' (JStr ''/'')]) \<and>
   well_typed (w_heap (world_with on_stack_fields)) (JRef 0) on_stack_cfg \<and>
   (\<exists>lay data.
      emitted (world_with on_stack_fields)
        (createCallStackChart example_runtime (world_with on_stack_fields) (JRef 0))
        (JStr ''chart'') lay data \<and>
      filter (\<lambda>s. seg_text s = JStr ''Return Value'') (during_call data) =
        [during ''Return Value'' (Fin 4) ''lightgrey'' (JStr []),
         during ''Return Value'' (Fin 4) ''lightblue'' (JStr ''/'')]) \<and>
   well_typed2 (w_heap (world_with example_fields)) (JRef 0) example_cfg \<and>
   (\<exists>lay data.
      emitted (world_with example_fields)
        (createCallStackChart2 example_runtime (world_with example_fields) (JRef 0))
        (JStr ''call-stack-chart'') lay data \<and>
      filter (\<lambda>s. seg_text s = JStr ''Return Value'') (during_call data) =
        [during ''Return Value'' (Fin 4) ''lightblue'' JUndefined]) \<and>
   well_typed2 (w_heap (world_with on_stack_fields)) (JRef 0) on_stack_cfg \<and>
   (\<exists>lay data.
      emitted (world_with on_stack_fields)
        (createCallStackChart2 example_runtime (world_with on_stack_fields) (JRef 0))
        (JStr ''call-stack-chart'') lay data \<and>
      filter (\<lambda>s. seg_text s = JStr ''Return Value'') (during_call data) =
        [during ''Return Value'' (Fin 4) ''lightgrey'' JUndefined,
         during ''Return Value'' (Fin 4) ''lightblue'' JUndefined])"
proof -
  note t = return_value_segments [of "world_with example_fields" "JRef 0" example_cfg example_runtime]
  note u = return_value_segments [of "world_with on_stack_fields" "JRef 0" on_stack_cfg example_runtime]
  have c: "cfg_id example_cfg = ''chart''" "cfg_returnValueSize example_cfg = Fin 4"
    "\<not> cfg_returnValueOnCallStack example_cfg"
    "cfg_id on_stack_cfg = ''chart''" "cfg_returnValueSize on_stack_cfg = Fin 4"
    "cfg_returnValueOnCallStack on_stack_cfg"
    by (simp_all add: example_cfg_def on_stack_cfg_def)
  from t u example_well_typed example_well_typed2 on_stack_well_typed on_stack_well_typed2
  show ?thesis by (simp add: c)
qed

lemma link_register_chart_segments:
  "filter (\<lambda>s. seg_text s = JStr ''Link Register'') (chart_segments rt cfg) =
     (if cfg_linkRegister cfg then [during ''Link Register'' (Fin 4) ''lightgreen'' (JStr [])]
      else [])"
  by (simp add: chart_segments_def filter_map_none seg_text_argument_segment)

lemma link_register_chart_segments2:
  "filter (\<lambda>s. seg_text s = JStr ''Link Register'') (chart_segments2 rt cfg) =
     (if cfg_linkRegister cfg then [during ''Link Register'' (Fin 4) ''lightgreen'' JUndefined]
      else [])"
  by (simp add: chart_segments2_def filter_map_none seg_text_argument_segment)

text \<open>
  Claim C6. For every well-typed options object with \<open>linkRegister = false\<close> no segment
  of the data array, in any column, has the text \<open>Link Register\<close>; with
  \<open>linkRegister = true\<close> exactly one has, it is in the During Call column and its size
  is 4.
\<close>

theorem link_register_segments:
  "(well_typed (w_heap w) options cfg \<longrightarrow>
      (\<exists>lay data.
         emitted w (createCallStackChart rt w options) (JStr (cfg_id cfg)) lay data \<and>
         filter (\<lambda>s. seg_text s = JStr ''Link Register'') (map segment_of data) =
           (if cfg_linkRegister cfg
            then [during ''Link Register'' (Fin 4) ''lightgreen'' (JStr [])]
            else []))) \<and>
   (well_typed2 (w_heap w) options cfg \<longrightarrow>
      (\<exists>lay data.
         emitted w (createCallStackChart2 rt w options) (JStr ''call-stack-chart'') lay data \<and>
         filter (\<lambda>s. seg_text s = JStr ''Link Register'') (map segment_of data) =
           (if cfg_linkRegister cfg
            then [during ''Link Register'' (Fin 4) ''lightgreen'' JUndefined]
            else [])))"
proof (intro conjI impI)
  assume "well_typed (w_heap w) options cfg"
  from createCallStackChart_typed [OF this, of rt] obtain lay data where
    e: "emitted w (createCallStackChart rt w options) (JStr (cfg_id cfg)) lay data"
    and s: "map segment_of data = chart_segments rt cfg" by blast
  from e show "\<exists>lay data.
         emitted w (createCallStackChart rt w options) (JStr (cfg_id cfg)) lay data \<and>
         filter (\<lambda>s. seg_text s = JStr ''Link Register'') (map segment_of data) =
           (if cfg_linkRegister cfg
            then [during ''Link Register'' (Fin 4) ''lightgreen'' (JStr [])]
            else [])"
    using link_register_chart_segments [of rt cfg] unfolding s [symmetric] by blast
next
  assume "well_typed2 (w_heap w) options cfg"
  from createCallStackChart2_typed [OF this, of rt] obtain lay data where
    e: "emitted w (createCallStackChart2 rt w options) (JStr ''call-stack-chart'') lay data"
    and s: "map segment_of data = chart_segments2 rt cfg" by blast
  from e show "\<exists>lay data.
         emitted w (createCallStackChart2 rt w options) (JStr ''call-stack-chart'') lay data \<and>
         filter (\<lambda>s. seg_text s = JStr ''Link Register'') (map segment_of data) =
           (if cfg_linkRegister cfg
            then [during ''Link Register'' (Fin 4) ''lightgreen'' JUndefined]
            else [])"
    using link_register_chart_segments2 [of rt cfg] unfolding s [symmetric] by blast
qed

lemma no_link_well_typed: "well_typed (heap_with no_link_fields) (JRef 0) no_link_cfg"
  by (simp add: well_typed_def well_typed2_def is_callArg_def no_link_fields_def no_link_cfg_def
      example_cfg_def own_property_def)

lemma no_link_well_typed2: "well_typed2 (heap_with no_link_fields) (JRef 0) no_link_cfg"
  using no_link_well_typed by (simp add: well_typed_def)

text \<open>
  Claim C6, at the example and at the example with \<open>linkRegister = false\<close>.
\<close>

theorem link_register_segments_example:
  "well_typed (w_heap (world_with example_fields)) (JRef 0) example_cfg \<and>
   (\<exists>lay data.
      emitted (world_with example_fields)
        (createCallStackChart example_runtime (world_with example_fields) (JRef 0))
        (JStr ''chart'') lay data \<and>
      filter (\<lambda>s. seg_text s = JStr ''Link Register'') (map segment_of data) =
        [during ''Link Register'' (Fin 4) ''lightgreen'' (JStr [])]) \<and>
   well_typed (w_heap (world_with no_link_fields)) (JRef 0) no_link_cfg \<and>
   (\<exists>lay data.
      emitted (world_with no_link_fields)
        (createCallStackChart example_runtime (world_with no_link_fields) (JRef 0))
        (JStr ''chart'') lay data \<and>
      filter (\<lambda>s. seg_text s = JStr ''Link Register'') (map segment_of data) = []) \<and>
   well_typed2 (w_heap (world_with example_fields)) (JRef 0) example_cfg \<and>
   (\<exists>lay data.
      emitted (world_with example_fields)
        (createCallStackChart2 example_runtime (world_with example_fields) (JRef 0))
        (JStr ''call-stack-chart'') lay data \<and>
      filter (\<lambda>s. seg_text s = JStr ''Link Register'') (map segment_of data) =
        [during ''Link Register'' (Fin 4) ''lightgreen'' JUndefined]) \<and>
   well_typed2 (w_heap (world_with no_link_fields)) (JRef 0) no_link_cfg \<and>
   (\<exists>lay data.
      emitted (world_with no_link_fields)
        (createCallStackChart2 example_runtime (world_with no_link_fields) (JRef 0))
        (JStr ''call-stack-chart'') lay data \<and>
      filter (\<lambda>s. seg_text s = JStr ''Link Register'') (map segment_of data) = [])"
proof -
  note t = link_register_segments [of "world_with example_fields" "JRef 0" example_cfg example_runtime]
  note u = link_register_segments [of "world_with no_link_fields" "JRef 0" no_link_cfg example_runtime]
  have c: "cfg_id example_cfg = ''chart''" "cfg_linkRegister example_cfg"
    "cfg_id no_link_cfg = ''chart''" "\<not> cfg_linkRegister no_link_cfg"
    by (simp_all add: example_cfg_def no_link_cfg_def)
  from t u example_well_typed example_well_typed2 no_link_well_typed no_link_well_typed2
  show ?thesis by (simp add: c)
qed

lemma is_argument_segment_during:
  "is_argument_segment (during label n c shape) = (take 9 label = ''Argument '')"
  by (simp add: is_argument_segment_def)

lemma is_argument_segment_argument [simp]: "is_argument_segment (argument_segment rt shape ic)"
  by (simp add: is_argument_segment_def seg_text_argument_segment)

lemma argument_chart_segments:
  "filter is_argument_segment (filter (\<lambda>s. seg_x s = JStr DURING_CALL) (chart_segments rt cfg)) =
     map (argument_segment rt (JStr [])) (enumerate 0 (cfg_callArgs cfg))"
  by (simp add: during_chart_segments filter_map_all is_argument_segment_during)

lemma argument_chart_segments2:
  "filter is_argument_segment (filter (\<lambda>s. seg_x s = JStr DURING_CALL) (chart_segments2 rt cfg)) =
     map (argument_segment rt JUndefined) (enumerate 0 (cfg_callArgs cfg))"
  by (simp add: during_chart_segments2 filter_map_all is_argument_segment_during)

lemma argument_segment_sizes:
  "map seg_y (map (argument_segment rt shape) (enumerate i cs)) = map (\<lambda>c. JNum (arg_size c)) cs"
  by (induction cs arbitrary: i) (simp_all add: argument_segment_def during_def)

lemma argument_segment_colors:
  "map seg_color (map (argument_segment rt shape) (enumerate i cs)) =
     map (\<lambda>c. JStr (arg_color c)) cs"
  by (induction cs arbitrary: i) (simp_all add: argument_segment_def during_def)

text \<open>
  Claim C7. For every well-typed options object the segments of the During Call column
  whose text begins with \<open>Argument\<close> are the segments of the elements of \<open>callArgs\<close>,
  in the order of the elements, with the text \<open>Argument i (name)\<close>: they are as many as
  the elements, and their sizes and colours are the \<open>size\<close> and \<open>color\<close> of the
  elements.
\<close>

theorem argument_segments:
  "(well_typed (w_heap w) options cfg \<longrightarrow>
      (\<exists>lay data.
         emitted w (createCallStackChart rt w options) (JStr (cfg_id cfg)) lay data \<and>
         filter is_argument_segment (during_call data) =
           map (argument_segment rt (JStr [])) (enumerate 0 (cfg_callArgs cfg)) \<and>
         length (filter is_argument_segment (during_call data)) = length (cfg_callArgs cfg) \<and>
         map seg_y (filter is_argument_segment (during_call data)) =
           map (\<lambda>c. JNum (arg_size c)) (cfg_callArgs cfg) \<and>
         map seg_color (filter is_argument_segment (during_call data)) =
           map (\<lambda>c. JStr (arg_color c)) (cfg_callArgs cfg))) \<and>
   (well_typed2 (w_heap w) options cfg \<longrightarrow>
      (\<exists>lay data.
         emitted w (createCallStackChart2 rt w options) (JStr ''call-stack-chart'') lay data \<and>
         filter is_argument_segment (during_call data) =
           map (argument_segment rt JUndefined) (enumerate 0 (cfg_callArgs cfg)) \<and>
         length (filter is_argument_segment (during_call data)) = length (cfg_callArgs cfg) \<and>
         map seg_y (filter is_argument_segment (during_call data)) =
           map (\<lambda>c. JNum (arg_size c)) (cfg_callArgs cfg) \<and>
         map seg_color (filter is_argument_segment (during_call data)) =
           map (\<lambda>c. JStr (arg_color c)) (cfg_callArgs cfg)))"
proof (intro conjI impI)
  assume "well_typed (w_heap w) options cfg"
  from createCallStackChart_typed [OF this, of rt] obtain lay data where
    e: "emitted w (createCallStackChart rt w options) (JStr (cfg_id cfg)) lay data"
    and s: "map segment_of data = chart_segments rt cfg" by blast
  have a: "filter is_argument_segment (during_call data) =
      map (argument_segment rt (JStr [])) (enumerate 0 (cfg_callArgs cfg))"
    unfolding during_call_def s by (rule argument_chart_segments)
  from e show "\<exists>lay data.
         emitted w (createCallStackChart rt w options) (JStr (cfg_id cfg)) lay data \<and>
         filter is_argument_segment (during_call data) =
           map (argument_segment rt (JStr [])) (enumerate 0 (cfg_callArgs cfg)) \<and>
         length (filter is_argument_segment (during_call data)) = length (cfg_callArgs cfg) \<and>
         map seg_y (filter is_argument_segment (during_call data)) =
           map (\<lambda>c. JNum (arg_size c)) (cfg_callArgs cfg) \<and>
         map seg_color (filter is_argument_segment (during_call data)) =
           map (\<lambda>c. JStr (arg_color c)) (cfg_callArgs cfg)"
    using a argument_segment_sizes [of rt "JStr []" 0 "cfg_callArgs cfg"]
      argument_segment_colors [of rt "JStr []" 0 "cfg_callArgs cfg"]
    by (intro exI [of _ lay] exI [of _ data]) simp
next
  assume "well_typed2 (w_heap w) options cfg"
  from createCallStackChart2_typed [OF this, of rt] obtain lay data where
    e: "emitted w (createCallStackChart2 rt w options) (JStr ''call-stack-chart'') lay data"
    and s: "map segment_of data = chart_segments2 rt cfg" by blast
  have a: "filter is_argument_segment (during_call data) =
      map (argument_segment rt JUndefined) (enumerate 0 (cfg_callArgs cfg))"
    unfolding during_call_def s by (rule argument_chart_segments2)
  from e show "\<exists>lay data.
         emitted w (createCallStackChart2 rt w options) (JStr ''call-stack-chart'') lay data \<and>
         filter is_argument_segment (during_call data) =
           map (argument_segment rt JUndefined) (enumerate 0 (cfg_callArgs cfg)) \<and>
         length (filter is_argument_segment (during_call data)) = length (cfg_callArgs cfg) \<and>
         map seg_y (filter is_argument_segment (during_call data)) =
           map (\<lambda>c. JNum (arg_size c)) (cfg_callArgs cfg) \<and>
         map seg_color (filter is_argument_segment (during_call data)) =
           map (\<lambda>c. JStr (arg_color c)) (cfg_callArgs cfg)"
    using a argument_segment_sizes [of rt JUndefined 0 "cfg_callArgs cfg"]
      argument_segment_colors [of rt JUndefined 0 "cfg_callArgs cfg"]
    by (intro exI [of _ lay] exI [of _ data]) simp
qed

text \<open>
  Claim C7, at the example: one argument segment, of size 4 and colour red.
\<close>

theorem argument_segments_example:
  "well_typed (w_heap (world_with example_fields)) (JRef 0) example_cfg \<and>
   (\<exists>lay data.
      emitted (world_with example_fields)
        (createCallStackChart example_runtime (world_with example_fields) (JRef 0))
        (JStr ''chart'') lay data \<and>
      filter is_argument_segment (during_call data) =
        [during ''Argument 0 (x)'' (Fin 4) ''red'' (JStr [])] \<and>
      length (filter is_argument_segment (during_call data)) = 1 \<and>
      map seg_y (filter is_argument_segment (during_call data)) = [JNum (Fin 4)] \<and>
      map seg_color (filter is_argument_segment (during_call data)) = [JStr ''red'']) \<and>
   well_typed2 (w_heap (world_with example_fields)) (JRef 0) example_cfg \<and>
   (\<exists>lay data.
      emitted (world_with example_fields)
        (createCallStackChart2 example_runtime (world_with example_fields) (JRef 0))
        (JStr ''call-stack-chart'') lay data \<and>
      filter is_argument_segment (during_call data) =
        [during ''Argument 0 (x)'' (Fin 4) ''red'' JUndefined] \<and>
      length (filter is_argument_segment (during_call data)) = 1 \<and>
      map seg_y (filter is_argument_segment (during_call data)) = [JNum (Fin 4)] \<and>
      map seg_color (filter is_argument_segment (during_call data)) = [JStr ''red''])"
proof -
  note t = argument_segments [of "world_with example_fields" "JRef 0" example_cfg example_runtime]
  have c: "cfg_id example_cfg = ''chart''"
    "map (\<lambda>c. JNum (arg_size c)) (cfg_callArgs example_cfg) = [JNum (Fin 4)]"
    "map (\<lambda>c. JStr (arg_color c)) (cfg_callArgs example_cfg) = [JStr ''red'']"
    "length (cfg_callArgs example_cfg) = 1"
    by (simp_all add: example_cfg_def)
  from t example_well_typed example_well_typed2 show ?thesis
    by (simp add: c example_argument_segments)
qed
section \<open>Changing one field\<close>








section \<open>The options are only read\<close>





end
